theory Spec2Isabelle
  imports Complex_Main "HOL-Library.AList"
begin

section \<open>Legend renderer: data model\<close>

text \<open>
  The development follows \<^verbatim>\<open>src/LegendRenderer/LegendRenderer.ts\<close>.
  Numbers of the source are IEEE doubles. Every constant the renderer computes with
  (45, 30, 5, 20, 3 and the quotients 45/2, 45/3, 45/6, 30/2, 30/3, 30/6 and their small
  multiples) is a dyadic rational that a double represents exactly, so finite numbers are
  modelled as \<^typ>\<open>rat\<close>; the infinite values are left out. Arithmetic on an absent
  optional field (\<^verbatim>\<open>undefined\<close>) yields \<^verbatim>\<open>NaN\<close> in the source; that value is kept in
  the model.
\<close>

datatype number = Num rat | NaN

text \<open>\<^verbatim>\<open>ToNumber\<close> of an optional numeric field: \<^verbatim>\<open>undefined\<close> becomes \<^verbatim>\<open>NaN\<close>.\<close>

fun toNumber :: "number option \<Rightarrow> number" where
  "toNumber None = NaN"
| "toNumber (Some n) = n"

text \<open>The operators \<^verbatim>\<open>+\<close>, \<^verbatim>\<open>>\<close>, \<^verbatim>\<open>>=\<close>, \<^verbatim>\<open>===\<close> on numbers.\<close>

fun js_add :: "number \<Rightarrow> number \<Rightarrow> number" where
  "js_add (Num a) (Num b) = Num (a + b)"
| "js_add _ _ = NaN"

fun js_gt :: "number \<Rightarrow> number \<Rightarrow> bool" where
  "js_gt (Num a) (Num b) = (a > b)"
| "js_gt _ _ = False"

fun js_ge :: "number \<Rightarrow> number \<Rightarrow> bool" where
  "js_ge (Num a) (Num b) = (a \<ge> b)"
| "js_ge _ _ = False"

fun js_eq :: "number \<Rightarrow> number \<Rightarrow> bool" where
  "js_eq (Num a) (Num b) = (a = b)"
| "js_eq _ _ = False"

text \<open>Truthiness of an optional number: \<^verbatim>\<open>undefined\<close>, \<^verbatim>\<open>0\<close> and \<^verbatim>\<open>NaN\<close> are falsy.\<close>

fun truthy :: "number option \<Rightarrow> bool" where
  "truthy None = False"
| "truthy (Some NaN) = False"
| "truthy (Some (Num a)) = (a \<noteq> 0)"

subsection \<open>Styles, rules and symbolizers (package geostyler-style)\<close>

text \<open>
  A symbolizer is a tagged object; the renderer reads only its \<^verbatim>\<open>kind\<close> and hands the
  rest (here \<open>payload\<close>) to the style parser unchanged. The kind is a string at run time,
  so a kind outside the ones the renderer knows is any other string.
\<close>

record Symbolizer =
  kind :: string
  payload :: string

record Rule =
  rule_name :: string
  symbolizers :: "Symbolizer list"

text \<open>\<^verbatim>\<open>extractConfigFromStyle\<close> tests \<^verbatim>\<open>style.name\<close> for truthiness, so the name
  may be absent.\<close>

record Style =
  style_name :: "string option"
  rules :: "Rule list"

subsection \<open>Configuration interfaces (lines 19 to 43)\<close>

text \<open>
  A field that two interfaces share gets a prefix: \<open>item_rule\<close> and \<open>item_title\<close> are
  \<^verbatim>\<open>rule\<close> and \<^verbatim>\<open>title\<close> of a legend item, \<open>remote_title\<close> is \<^verbatim>\<open>title\<close> of a
  remote legend, \<open>rule_name\<close> and \<open>style_name\<close> are \<^verbatim>\<open>name\<close> of a rule and of a style,
  and \<open>frame_size\<close> is \<^verbatim>\<open>size\<close>. An optional field is an \<open>option\<close>, \<open>None\<close> when it is
  absent.
\<close>

record LegendItemConfiguration =
  item_rule :: "Rule option"
  item_title :: string

record LegendConfiguration =
  items :: "LegendItemConfiguration list"
  title :: string

record RemoteLegend =
  url :: string
  remote_title :: string

datatype overflow_policy = Auto | Group

record LegendsConfiguration =
  styles :: "Style list option"
  configs :: "LegendItemConfiguration list option"
  remoteLegends :: "RemoteLegend list option"
  frame_size :: "number \<times> number"
  maxColumnHeight :: "number option"
  maxColumnWidth :: "number option"
  overflow :: "overflow_policy option"
  hideRect :: "bool option"

definition iconSize :: "rat \<times> rat" where
  "iconSize = (45, 30)"

section \<open>Symbol geometry (lines 173 to 195)\<close>

type_synonym coordinate = "rat \<times> rat"

datatype OlGeometry =
    OlGeomPoint coordinate
  | OlGeomPolygon "coordinate list list"
  | OlGeomLineString "coordinate list"

definition getGeometryForSymbolizer :: "Symbolizer \<Rightarrow> OlGeometry" where
  "getGeometryForSymbolizer symbolizer =
     (let k = kind symbolizer in
      if k = ''Mark'' \<or> k = ''Icon'' \<or> k = ''Text'' then
        OlGeomPoint (fst iconSize / 2, snd iconSize / 2)
      else if k = ''Fill'' then
        OlGeomPolygon [[
          (3, 3), (fst iconSize - 3, 3), (fst iconSize - 3, snd iconSize - 3),
          (3, snd iconSize - 3), (3, 3)
        ]]
      else if k = ''Line'' then
        OlGeomLineString [
          (fst iconSize / 6, snd iconSize / 6),
          (fst iconSize / 3, snd iconSize / 3 * 2),
          (fst iconSize / 2, snd iconSize / 3),
          (fst iconSize / 6 * 5, snd iconSize / 6 * 5)
        ]
      else
        OlGeomPoint (fst iconSize / 2, snd iconSize / 2))"

section \<open>The scene graph (d3-selection on SVG elements)\<close>

text \<open>
  An element has a tag, attributes, inline styles, a text content and children. An
  attribute value is what the source passes to \<^verbatim>\<open>attr\<close>: a string, a number, or the
  template \<^verbatim>\<open>`0 0 ${w} ${h}`\<close> of the view box, kept as its two numbers.
  A selection of one freshly appended element is modelled by the element itself: the
  chained calls build it, and it is a child of its parent. All steps of the renderer are
  awaited in sequence, so no other mutation happens between the append of a group and the
  appends into it.
\<close>

datatype attr_value = Str string | Number number | ViewBox number number

datatype element =
  Element (tag: string) (attrs: "(string \<times> attr_value) list")
    (css: "(string \<times> attr_value) list") (textContent: string) (children: "element list")

definition create :: "string \<Rightarrow> element" where
  "create name = Element name [] [] [] []"

definition attr :: "string \<Rightarrow> attr_value \<Rightarrow> element \<Rightarrow> element" where
  "attr name v e = Element (tag e) (AList.update name v (attrs e)) (css e) (textContent e) (children e)"

definition set_style :: "string \<Rightarrow> attr_value \<Rightarrow> element \<Rightarrow> element" where
  "set_style name v e = Element (tag e) (attrs e) (AList.update name v (css e)) (textContent e) (children e)"

definition set_text :: "string \<Rightarrow> element \<Rightarrow> element" where
  "set_text s e = Element (tag e) (attrs e) (css e) s (children e)"

definition appendChild :: "element \<Rightarrow> element \<Rightarrow> element" where
  "appendChild parent child =
     Element (tag parent) (attrs parent) (css parent) (textContent parent) (children parent @ [child])"

definition get_attr :: "element \<Rightarrow> string \<Rightarrow> attr_value option" where
  "get_attr e name = map_of (attrs e) name"

section \<open>External collaborators\<close>

text \<open>
  The style parser, the immediate renderer with its canvas, the network, the image decoder
  and the text measurement of the browser are not part of the repository. They are
  parameters of the model: each call has an outcome, \<open>Inl\<close> for a thrown exception or a
  rejected promise, \<open>Inr\<close> for a value. A promise of a collaborator is taken to settle.
\<close>

type_synonym exn = string
type_synonym OlStyle = string

datatype olStyleLike = OneStyle OlStyle | StyleArray "OlStyle list"

datatype olOutput =
    Static olStyleLike
  | StyleFunction "OlGeometry option \<Rightarrow> rat \<Rightarrow> exn + olStyleLike"

record WriteStyleResult =
  ws_output :: olOutput
  ws_errors :: "string list option"

datatype Response = Response string
datatype Blob = Blob string

record HTMLImageElement =
  img_width :: rat
  img_height :: rat

record 'c environment =
  writeStyle :: "Style \<Rightarrow> exn + WriteStyleResult"
  newRenderer :: 'c
  setStyle :: "'c \<Rightarrow> OlStyle \<Rightarrow> exn + 'c"
  drawGeometry :: "'c \<Rightarrow> OlGeometry \<Rightarrow> exn + 'c"
  toDataURL :: "'c \<Rightarrow> string \<Rightarrow> exn + string"
  fetch :: "string \<Rightarrow> exn + Response"
  blob :: "Response \<Rightarrow> exn + Blob"
  readAsDataURL :: "Blob \<Rightarrow> exn + string"
  decode :: "string \<Rightarrow> exn + HTMLImageElement"
  getBoundingClientRectWidth :: "element \<Rightarrow> rat"
  instanceofSVGElement :: "element \<Rightarrow> bool"

subsection \<open>Promises\<close>

text \<open>
  A promise is observed when it has settled. A rejection carries the value passed to
  \<^verbatim>\<open>reject\<close>, \<open>None\<close> when it was called without one. Only the first call of
  \<^verbatim>\<open>resolve\<close> or \<^verbatim>\<open>reject\<close> settles a promise.
\<close>

datatype 'a promise = Pending | Fulfilled 'a | Rejected "string option"

fun resolve :: "'a \<Rightarrow> 'a promise \<Rightarrow> 'a promise" where
  "resolve v Pending = Fulfilled v"
| "resolve v p = p"

fun reject :: "string option \<Rightarrow> 'a promise \<Rightarrow> 'a promise" where
  "reject r Pending = Rejected r"
| "reject r p = p"

section \<open>Icon synthesis (lines 201 to 248)\<close>

text \<open>\<^verbatim>\<open>drawGeoms\<close>: every geometry is drawn in turn; an exception ends the loop.\<close>

fun drawGeoms :: "'c environment \<Rightarrow> OlGeometry list \<Rightarrow> 'c \<Rightarrow> exn + 'c" where
  "drawGeoms env [] renderer = Inr renderer"
| "drawGeoms env (geom # geoms) renderer =
     (case drawGeometry env renderer geom of
        Inl e \<Rightarrow> Inl e
      | Inr renderer' \<Rightarrow> drawGeoms env geoms renderer')"

text \<open>The \<^verbatim>\<open>forEach\<close> over an array of styles: set the style, draw all geometries.\<close>

fun drawStyles :: "'c environment \<Rightarrow> OlGeometry list \<Rightarrow> OlStyle list \<Rightarrow> 'c \<Rightarrow> exn + 'c" where
  "drawStyles env geoms [] renderer = Inr renderer"
| "drawStyles env geoms (styleItem # rest) renderer =
     (case setStyle env renderer styleItem of
        Inl e \<Rightarrow> Inl e
      | Inr r1 \<Rightarrow>
          (case drawGeoms env geoms r1 of
             Inl e \<Rightarrow> Inl e
           | Inr r2 \<Rightarrow> drawStyles env geoms rest r2))"

text \<open>Lines 231 to 242: a style function is called with a feature of the first geometry
  (\<^verbatim>\<open>geoms[0]\<close>, absent for a rule without symbolizers) and resolution 1; then the
  styles are drawn.\<close>

definition drawOutput :: "'c environment \<Rightarrow> OlGeometry list \<Rightarrow> olOutput \<Rightarrow> 'c \<Rightarrow> exn + 'c" where
  "drawOutput env geoms olStyle renderer =
     (case (case olStyle of
              StyleFunction f \<Rightarrow> f (case geoms of [] \<Rightarrow> None | g # _ \<Rightarrow> Some g) 1
            | Static s \<Rightarrow> Inr s) of
        Inl e \<Rightarrow> Inl e
      | Inr (StyleArray ss) \<Rightarrow> drawStyles env geoms ss renderer
      | Inr (OneStyle s) \<Rightarrow>
          (case setStyle env renderer s of
             Inl e \<Rightarrow> Inl e
           | Inr r1 \<Rightarrow> drawGeoms env geoms r1))"

text \<open>The single-rule style handed to the parser (lines 215 to 221).\<close>

definition iconStyle :: "Rule \<Rightarrow> Style" where
  "iconStyle rule =
     \<lparr>style_name = Some [], rules = [\<lparr>rule_name = [], symbolizers = symbolizers rule\<rparr>]\<rparr>"

text \<open>
  The executor of the promise (lines 222 to 247). After \<^verbatim>\<open>reject(errors[0])\<close> the
  body goes on: it still draws and calls \<^verbatim>\<open>resolve\<close>, or lands in the
  \<^verbatim>\<open>catch\<close> and calls \<^verbatim>\<open>reject()\<close>; the promise state \<open>p\<close> is threaded through.
\<close>

definition getRuleIcon :: "'c environment \<Rightarrow> Rule \<Rightarrow> string promise" where
  "getRuleIcon env rule =
     (let renderer = newRenderer env;
          geoms = foldl (\<lambda>gs symbolizer. gs @ [getGeometryForSymbolizer symbolizer]) []
                    (symbolizers rule);
          style = iconStyle rule;
          p = Pending
      in case writeStyle env style of
           Inl e \<Rightarrow> reject None p
         | Inr res \<Rightarrow>
             (let olStyle = ws_output res;
                  errs = (case ws_errors res of None \<Rightarrow> [] | Some es \<Rightarrow> es);
                  p1 = (if length errs > 0 then reject (Some (errs ! 0)) p else p)
              in case drawOutput env geoms olStyle renderer of
                   Inl e \<Rightarrow> reject None p1
                 | Inr canvas \<Rightarrow>
                     (case toDataURL env canvas ''image/png'' of
                        Inl e \<Rightarrow> reject None p1
                      | Inr uri \<Rightarrow> resolve uri p1)))"

text \<open>
  For the properties: the calls that lines 234 to 242 make on the renderer, in their
  order. Each style is set and then every geometry is drawn under it. A single style
  counts as an array of one.
\<close>

datatype draw_call = SetStyle OlStyle | DrawGeometry OlGeometry

fun call :: "'c environment \<Rightarrow> 'c \<Rightarrow> draw_call \<Rightarrow> exn + 'c" where
  "call env renderer (SetStyle s) = setStyle env renderer s"
| "call env renderer (DrawGeometry g) = drawGeometry env renderer g"

definition draw_calls :: "OlGeometry list \<Rightarrow> olStyleLike \<Rightarrow> draw_call list" where
  "draw_calls geoms olStyle =
     concat (map (\<lambda>s. SetStyle s # map DrawGeometry geoms)
       (case olStyle of OneStyle s \<Rightarrow> [s] | StyleArray ss \<Rightarrow> ss))"

text \<open>The first \<open>i\<close> calls succeed one after the other, and \<open>cs\<close> lists the states of
  the renderer before, between and after them.\<close>

definition succeeded :: "'c environment \<Rightarrow> draw_call list \<Rightarrow> 'c list \<Rightarrow> nat \<Rightarrow> bool" where
  "succeeded env calls cs i =
     (i \<le> length calls \<and> length cs = Suc i \<and>
      (\<forall>j<i. call env (cs ! j) (calls ! j) = Inr (cs ! Suc j)))"

text \<open>Calls made in sequence until one throws.\<close>

fun run :: "'c environment \<Rightarrow> 'c \<Rightarrow> draw_call list \<Rightarrow> exn + 'c" where
  "run env renderer [] = Inr renderer"
| "run env renderer (c # calls) =
     (case call env renderer c of
        Inl e \<Rightarrow> Inl e
      | Inr renderer' \<Rightarrow> run env renderer' calls)"

section \<open>Legend items (lines 89 to 137)\<close>

text \<open>The function returns \<^verbatim>\<open>undefined\<close> or a promise; the container and the cursor
  it mutates are returned with it.\<close>

datatype item_return = ReturnsUndefined | ReturnsPromise "unit promise"

type_synonym position = "number \<times> number"

definition renderLegendItem ::
  "LegendsConfiguration \<Rightarrow> 'c environment \<Rightarrow> element \<Rightarrow> LegendItemConfiguration \<Rightarrow> position
     \<Rightarrow> item_return \<times> element \<times> position" where
  "renderLegendItem config env container item position =
     (case item_rule item of
        Some rule \<Rightarrow>
          (let g = attr ''title'' (Str (item_title item))
                     (attr ''class'' (Str ''legend-item'') (create ''g''))
           in case getRuleIcon env rule of
                Fulfilled uri \<Rightarrow>
                  (let g1 = (if hideRect config \<noteq> Some True then
                               appendChild g
                                 (set_style ''stroke'' (Str ''black'')
                                   (set_style ''fill-opacity'' (Number (Num 0))
                                     (attr ''height'' (Number (Num (snd iconSize)))
                                       (attr ''width'' (Number (Num (fst iconSize)))
                                         (attr ''y'' (Number (snd position))
                                           (attr ''x'' (Number (js_add (fst position) (Num 1)))
                                             (create ''rect'')))))))
                             else g);
                       g2 = appendChild g1
                              (attr ''href'' (Str uri)
                                (attr ''height'' (Number (Num (snd iconSize)))
                                  (attr ''width'' (Number (Num (fst iconSize)))
                                    (attr ''y'' (Number (snd position))
                                      (attr ''x'' (Number (js_add (fst position) (Num 1)))
                                        (create ''image''))))));
                       g3 = appendChild g2
                              (attr ''y'' (Number (js_add (snd position) (Num 20)))
                                (attr ''x'' (Number (js_add (js_add (fst position) (Num (fst iconSize))) (Num 5)))
                                  (set_text (item_title item) (create ''text''))));
                       position1 = (fst position, js_add (snd position) (Num (snd iconSize + 5)));
                       position2 =
                         (if truthy (maxColumnHeight config) \<and>
                             js_ge (js_add (js_add (snd position1) (Num (snd iconSize))) (Num 5))
                               (toNumber (maxColumnHeight config))
                          then (js_add (fst position1) (toNumber (maxColumnWidth config)), Num 5)
                          else position1)
                   in (ReturnsPromise (Fulfilled ()), appendChild container g3, position2))
              | Rejected r \<Rightarrow> (ReturnsPromise (Fulfilled ()), appendChild container g, position)
              | Pending \<Rightarrow> (ReturnsPromise Pending, appendChild container g, position))
      | None \<Rightarrow> (ReturnsUndefined, container, position))"

section \<open>Legends (lines 66 to 81 and 256 to 282)\<close>

definition extractConfigFromStyle :: "Style \<Rightarrow> LegendConfiguration" where
  "extractConfigFromStyle style =
     (let config = \<lparr>items = [], title = []\<rparr>;
          config1 = (case style_name style of
                       Some n \<Rightarrow> (if n \<noteq> [] then config\<lparr>title := n\<rparr> else config)
                     | None \<Rightarrow> config)
      in foldl (\<lambda>c rule. c\<lparr>items := items c @ [\<lparr>item_rule = Some rule, item_title = rule_name rule\<rparr>]\<rparr>)
           config1 (rules style))"

text \<open>
  The array \<^verbatim>\<open>legends\<close> of \<^verbatim>\<open>render\<close> is declared to hold legend configurations, and
  \<^verbatim>\<open>unshift.apply\<close> puts the entries of \<^verbatim>\<open>configs\<close> into it, which the interface
  declares as legend item configurations. At run time the array so holds objects of both
  shapes. An object of the declared item shape has a title and no \<^verbatim>\<open>items\<close>: reading
  \<^verbatim>\<open>config.items\<close> gives \<^verbatim>\<open>undefined\<close>, and the property access on it throws a
  TypeError.
\<close>

datatype legend_object = LegendObject LegendConfiguration | ItemObject LegendItemConfiguration

fun object_title :: "legend_object \<Rightarrow> string" where
  "object_title (LegendObject c) = title c"
| "object_title (ItemObject i) = item_title i"

fun object_items :: "legend_object \<Rightarrow> LegendItemConfiguration list option" where
  "object_items (LegendObject c) = Some (items c)"
| "object_items (ItemObject i) = None"

text \<open>Lines 262 to 268, the check before the title is placed. It yields the cursor.\<close>

definition columnBreakBefore :: "LegendsConfiguration \<Rightarrow> legend_object \<Rightarrow> position \<Rightarrow> exn + position" where
  "columnBreakBefore cfg config position =
     (if overflow cfg \<noteq> Some Auto \<and> \<not> js_eq (fst position) (Num 0) then
        (case object_items config of
           None \<Rightarrow> Inl ''TypeError''
         | Some its \<Rightarrow>
             (let legendHeight = Num (of_nat (length its) * (snd iconSize + 5) + 20)
              in if js_gt (js_add legendHeight (snd position)) (toNumber (maxColumnHeight cfg))
                 then Inr (js_add (fst position) (toNumber (maxColumnWidth cfg)), Num 0)
                 else Inr position))
      else Inr position)"

text \<open>One step of the \<^verbatim>\<open>reduce\<close> of line 279: \<^verbatim>\<open>cur.then(() => renderLegendItem(...))\<close>.
  The callback runs when \<open>cur\<close> is fulfilled, and the new promise follows what it returns.\<close>

definition renderItemStep ::
  "LegendsConfiguration \<Rightarrow> 'c environment \<Rightarrow> unit promise \<times> element \<times> position
     \<Rightarrow> LegendItemConfiguration \<Rightarrow> unit promise \<times> element \<times> position" where
  "renderItemStep cfg env cur item =
     (case cur of
        (Fulfilled u, svg, position) \<Rightarrow>
          (case renderLegendItem cfg env svg item position of
             (ReturnsUndefined, svg1, position1) \<Rightarrow> (Fulfilled (), svg1, position1)
           | (ReturnsPromise p, svg1, position1) \<Rightarrow> (p, svg1, position1))
      | other \<Rightarrow> other)"

definition legendTitleText :: "string \<Rightarrow> position \<Rightarrow> element" where
  "legendTitleText t position =
     attr ''dy'' (if js_eq (snd position) (Num 0) then Str ''1em''
                  else Number (js_add (snd position) (Num 15)))
       (attr ''dx'' (Number (fst position))
         (attr ''text-anchor'' (Str ''start'')
           (attr ''class'' (Str ''legend-title'')
             (set_text t (create ''text'')))))"

definition renderLegend ::
  "LegendsConfiguration \<Rightarrow> 'c environment \<Rightarrow> legend_object \<Rightarrow> element \<Rightarrow> position
     \<Rightarrow> (exn + unit promise) \<times> element \<times> position" where
  "renderLegend cfg env config svg position =
     (let container = create ''g''
      in case columnBreakBefore cfg config position of
           Inl e \<Rightarrow> (Inl e, appendChild svg container, position)
         | Inr position1 \<Rightarrow>
             (let (container1, position2) =
                    (if object_title config \<noteq> [] then
                       (appendChild container (legendTitleText (object_title config) position1),
                        (fst position1, js_add (snd position1) (Num 20)))
                     else (container, position1));
                  svg1 = appendChild svg container1
              in case object_items config of
                   None \<Rightarrow> (Inl ''TypeError'', svg1, position2)
                 | Some its \<Rightarrow>
                     (case foldl (renderItemStep cfg env) (Fulfilled (), svg1, position2) its of
                        (p, svg2, position3) \<Rightarrow> (Inr p, svg2, position3))))"

section \<open>Remote legends (lines 290 to 354)\<close>

text \<open>The title text (lines 332 to 337) and the image (lines 340 to 345) of a remote
  legend.\<close>

definition remoteTitle :: "string \<Rightarrow> position \<Rightarrow> element" where
  "remoteTitle t position =
     attr ''dy'' (Number (snd position))
       (attr ''dx'' (Number (fst position))
         (attr ''text-anchor'' (Str ''start'')
           (attr ''class'' (Str ''legend-title'')
             (set_text t (create ''text'')))))"

definition remoteImage :: "string \<Rightarrow> HTMLImageElement \<Rightarrow> position \<Rightarrow> element" where
  "remoteImage base64 img position =
     attr ''href'' (Str base64)
       (attr ''height'' (Number (Num (img_height img)))
         (attr ''width'' (Number (Num (img_width img)))
           (attr ''y'' (Number (snd position))
             (attr ''x'' (Number (fst position))
               (create ''svg:image'')))))"

text \<open>The body of the loop for one remote legend. Any failure of the fetch, of the
  conversion or of the decoding lands in the \<^verbatim>\<open>catch\<close>, which goes on with the next
  reference (the message written to the console is not modelled).\<close>

definition renderImage ::
  "LegendsConfiguration \<Rightarrow> 'c environment \<Rightarrow> element \<times> position \<Rightarrow> RemoteLegend \<Rightarrow> element \<times> position" where
  "renderImage cfg env state remote =
     (let (svg, position) = state;
          legendSpacing = 20;
          titleSpacing = 5;
          legendUrl = url remote;
          legendTitle = remote_title remote
      in case fetch env legendUrl of
           Inl err \<Rightarrow> (svg, position)
         | Inr response \<Rightarrow>
         (case blob env response of
           Inl err \<Rightarrow> (svg, position)
         | Inr imageBlob \<Rightarrow>
         (case readAsDataURL env imageBlob of
           Inl err \<Rightarrow> (svg, position)
         | Inr base64 \<Rightarrow>
         (case decode env base64 of
           Inl err \<Rightarrow> (svg, position)
         | Inr img \<Rightarrow>
             (let position1 =
                    (if overflow cfg = Some Auto \<and>
                        js_gt (js_add (js_add (js_add (Num (img_height img)) (Num legendSpacing))
                                 (Num titleSpacing)) (snd position))
                          (toNumber (maxColumnHeight cfg))
                     then (js_add (fst position) (toNumber (maxColumnWidth cfg)), Num 0)
                     else position);
                  (svg1, position3) =
                    (if legendTitle \<noteq> [] then
                       (let position2 = (fst position1, js_add (snd position1) (Num legendSpacing));
                            container = appendChild (create ''g'') (remoteTitle legendTitle position2)
                        in (appendChild svg container,
                            (fst position2, js_add (snd position2) (Num titleSpacing))))
                     else (svg, position1));
                  svg2 = appendChild svg1 (remoteImage base64 img position3)
              in (svg2, (fst position3, js_add (snd position3) (Num (img_height img)))))))))"

definition renderImages ::
  "LegendsConfiguration \<Rightarrow> 'c environment \<Rightarrow> RemoteLegend list \<Rightarrow> element \<Rightarrow> position \<Rightarrow> element \<times> position" where
  "renderImages cfg env remotes svg position =
     (case foldl (renderImage cfg env) (svg, position) remotes of
        (svg1, position1) \<Rightarrow>
          (attr ''xmlns'' (Str ''http://www.w3.org/2000/svg'') svg1, position1))"

section \<open>Label shortening (lines 144 to 167)\<close>

text \<open>\<^verbatim>\<open>String.prototype.substring\<close>: both indices are clamped to the string, and
  swapped when the first is the larger. Characters stand for UTF-16 code units.\<close>

definition substring :: "string \<Rightarrow> int \<Rightarrow> int \<Rightarrow> string" where
  "substring str indexStart indexEnd =
     (let n = int (length str);
          a = min (max indexStart 0) n;
          b = min (max indexEnd 0) n
      in take (nat (max a b - min a b)) (drop (nat (min a b)) str))"

text \<open>
  \<^verbatim>\<open>node.select('text')\<close> is the first text element below the group. The groups the
  renderer makes hold a rectangle, an image and a text, none of which has children, so the
  search runs over the children. Reading the text of an empty selection throws a
  TypeError; setting it does nothing.
\<close>

fun first_text :: "element list \<Rightarrow> element option" where
  "first_text [] = None"
| "first_text (c # cs) = (if tag c = ''text'' then Some c else first_text cs)"

fun set_first_text :: "string \<Rightarrow> element list \<Rightarrow> element list" where
  "set_first_text s [] = []"
| "set_first_text s (c # cs) =
     (if tag c = ''text'' then set_text s c # cs else c # set_first_text s cs)"

definition set_label :: "string \<Rightarrow> element \<Rightarrow> element" where
  "set_label s node =
     Element (tag node) (attrs node) (css node) (textContent node) (set_first_text s (children node))"

text \<open>
  The \<^verbatim>\<open>while\<close> loop of lines 154 to 160. The width is measured by the browser on the
  live element, so the loop need not end: it runs forever when the group stays too wide
  with an empty label. Not returning is the value \<open>None\<close>.
\<close>

partial_function (option) shortenLoop ::
  "'c environment \<Rightarrow> number \<Rightarrow> element \<Rightarrow> bool \<Rightarrow> (exn + element \<times> bool) option" where
  "shortenLoop env maxWidth elem adapted =
     (if js_gt (Num (getBoundingClientRectWidth env elem)) maxWidth then
        (case first_text (children elem) of
           None \<Rightarrow> Some (Inl ''TypeError'')
         | Some t \<Rightarrow>
             shortenLoop env maxWidth
               (set_label (substring (textContent t) 0 (int (length (textContent t)) - 1)) elem) True)
      else Some (Inr (elem, adapted)))"

declare shortenLoop.simps [code]

text \<open>The callback of \<^verbatim>\<open>nodes.each\<close> for one group.\<close>

definition shortenLabel :: "'c environment \<Rightarrow> number option \<Rightarrow> element \<Rightarrow> (exn + element) option" where
  "shortenLabel env maxWidth node =
     (if \<not> instanceofSVGElement env node then Some (Inr node)
      else case shortenLoop env (toNumber maxWidth) node False of
             None \<Rightarrow> None
           | Some (Inl e) \<Rightarrow> Some (Inl e)
           | Some (Inr (elem, adapted)) \<Rightarrow>
               (if adapted then
                  (case first_text (children elem) of
                     None \<Rightarrow> Some (Inl ''TypeError'')
                   | Some t \<Rightarrow>
                       Some (Inr (set_label
                         (substring (textContent t) 0 (int (length (textContent t)) - 3) @ ''...'')
                         elem)))
                else Some (Inr elem)))"

text \<open>
  \<^verbatim>\<open>svg.selectAll('g.legend-item')\<close> followed by \<^verbatim>\<open>shortenLabels\<close>. Every group of
  class \<^verbatim>\<open>legend-item\<close> is appended to the frame itself (\<^verbatim>\<open>renderLegend\<close> passes
  \<^verbatim>\<open>svg\<close> as the container of an item), so the selection is taken among the children of
  the frame, in document order; the other children are left as they are.
\<close>

definition is_legend_item :: "element \<Rightarrow> bool" where
  "is_legend_item e = (tag e = ''g'' \<and> get_attr e ''class'' = Some (Str ''legend-item''))"

fun shortenLabels :: "'c environment \<Rightarrow> element list \<Rightarrow> number option \<Rightarrow> (exn + element list) option" where
  "shortenLabels env [] maxWidth = Some (Inr [])"
| "shortenLabels env (node # nodes) maxWidth =
     (case (if is_legend_item node then shortenLabel env maxWidth node else Some (Inr node)) of
        None \<Rightarrow> None
      | Some (Inl e) \<Rightarrow> Some (Inl e)
      | Some (Inr node') \<Rightarrow>
          (case shortenLabels env nodes maxWidth of
             None \<Rightarrow> None
           | Some (Inl e) \<Rightarrow> Some (Inl e)
           | Some (Inr nodes') \<Rightarrow> Some (Inr (node' # nodes'))))"

section \<open>The whole legend (lines 361 to 404)\<close>

text \<open>Lines 368 to 374: the list of legends.\<close>

definition buildLegends :: "LegendsConfiguration \<Rightarrow> legend_object list" where
  "buildLegends cfg =
     (let legends = [];
          legends1 = (case styles cfg of
                        Some ss \<Rightarrow> foldl (\<lambda>ls s. ls @ [LegendObject (extractConfigFromStyle s)]) legends ss
                      | None \<Rightarrow> legends);
          legends2 = (case configs cfg of
                        Some cs \<Rightarrow> map ItemObject cs @ legends1
                      | None \<Rightarrow> legends1)
      in legends2)"

text \<open>Lines 380 to 387: the frame. It is appended to the target after a former frame of
  the same class was removed there; the target itself is outside the model.\<close>

definition newFrame :: "LegendsConfiguration \<Rightarrow> element" where
  "newFrame cfg =
     (let (width, height) = frame_size cfg
      in attr ''height'' (Number height)
           (attr ''width'' (Number width)
             (attr ''left'' (Number (Num 0))
               (attr ''top'' (Number (Num 0))
                 (attr ''viewBox'' (ViewBox width height)
                   (attr ''class'' (Str ''geostyler-legend-renderer'')
                     (create ''svg'')))))))"

text \<open>Lines 390 to 392: each legend is awaited before the next one starts. An exception
  or a rejection ends \<^verbatim>\<open>render\<close>; a promise that stays pending would block it.\<close>

fun renderLegends ::
  "LegendsConfiguration \<Rightarrow> 'c environment \<Rightarrow> legend_object list \<Rightarrow> element \<Rightarrow> position
     \<Rightarrow> (exn + element \<times> position) option" where
  "renderLegends cfg env [] svg position = Some (Inr (svg, position))"
| "renderLegends cfg env (legend # legends) svg position =
     (case renderLegend cfg env legend svg position of
        (Inl e, svg1, position1) \<Rightarrow> Some (Inl e)
      | (Inr Pending, svg1, position1) \<Rightarrow> None
      | (Inr (Rejected r), svg1, position1) \<Rightarrow> Some (Inl (case r of None \<Rightarrow> [] | Some e \<Rightarrow> e))
      | (Inr (Fulfilled u), svg1, position1) \<Rightarrow> renderLegends cfg env legends svg1 position1)"

text \<open>Lines 389 to 395: the cursor starts at (0, 0); legends first, remote legends after.\<close>

definition placeAll :: "LegendsConfiguration \<Rightarrow> 'c environment \<Rightarrow> (exn + element \<times> position) option" where
  "placeAll cfg env =
     (case renderLegends cfg env (buildLegends cfg) (newFrame cfg) (Num 0, Num 0) of
        None \<Rightarrow> None
      | Some (Inl e) \<Rightarrow> Some (Inl e)
      | Some (Inr (svg, position)) \<Rightarrow>
          (case remoteLegends cfg of
             Some remotes \<Rightarrow> Some (Inr (renderImages cfg env remotes svg position))
           | None \<Rightarrow> Some (Inr (svg, position))))"

text \<open>\<^verbatim>\<open>render\<close> returns the frame, throws (\<open>Inl\<close>), or does not return (\<open>None\<close>).\<close>

definition render :: "LegendsConfiguration \<Rightarrow> 'c environment \<Rightarrow> (exn + element) option" where
  "render cfg env =
     (case placeAll cfg env of
        None \<Rightarrow> None
      | Some (Inl e) \<Rightarrow> Some (Inl e)
      | Some (Inr (svg, position)) \<Rightarrow>
          (case shortenLabels env (children svg) (maxColumnWidth cfg) of
             None \<Rightarrow> None
           | Some (Inl e) \<Rightarrow> Some (Inl e)
           | Some (Inr nodes) \<Rightarrow>
               (let svg1 = Element (tag svg) (attrs svg) (css svg) (textContent svg) nodes;
                    (width, height) = frame_size cfg
                in if \<not> truthy (maxColumnHeight cfg) then
                     Some (Inr (attr ''height'' (Number (snd position))
                                 (attr ''viewBox'' (ViewBox width (snd position)) svg1)))
                   else Some (Inr svg1))))"

section \<open>Sample collaborators and inputs\<close>

text \<open>A browser in which every collaborator succeeds: the canvas is the list of the
  operations drawn on it, a remote image is 100 by 50, and a group is 51 units wide plus
  10 units for each character of its label.\<close>

definition sampleEnv :: "string list environment" where
  "sampleEnv =
     \<lparr>writeStyle = (\<lambda>s. Inr \<lparr>ws_output = Static (OneStyle ''fill''), ws_errors = None\<rparr>),
      newRenderer = [],
      setStyle = (\<lambda>c s. Inr (c @ [s])),
      drawGeometry = (\<lambda>c g. Inr (c @ [''geometry''])),
      toDataURL = (\<lambda>c mime. Inr (''data:'' @ mime)),
      fetch = (\<lambda>u. Inr (Response u)),
      blob = (\<lambda>r. case r of Response u \<Rightarrow> Inr (Blob u)),
      readAsDataURL = (\<lambda>b. case b of Blob u \<Rightarrow> Inr u),
      decode = (\<lambda>src. Inr \<lparr>img_width = 100, img_height = 50\<rparr>),
      getBoundingClientRectWidth =
        (\<lambda>e. case first_text (children e) of
                None \<Rightarrow> 0
              | Some t \<Rightarrow> 51 + 10 * of_nat (length (textContent t))),
      instanceofSVGElement = (\<lambda>e. True)\<rparr>"

text \<open>The same browser with a style parser that reports an error.\<close>

definition failingEnv :: "string list environment" where
  "failingEnv = sampleEnv\<lparr>writeStyle :=
     (\<lambda>s. Inr \<lparr>ws_output = Static (StyleArray []), ws_errors = Some [''unsupported symbolizer'']\<rparr>)\<rparr>"

text \<open>The same browser with a renderer whose \<^verbatim>\<open>setStyle\<close> throws.\<close>

definition throwingEnv :: "string list environment" where
  "throwingEnv = sampleEnv\<lparr>setStyle := (\<lambda>c s. Inl ''TypeError'')\<rparr>"

definition sampleRule :: Rule where
  "sampleRule = \<lparr>rule_name = ''area'', symbolizers = [\<lparr>kind = ''Fill'', payload = []\<rparr>]\<rparr>"

definition sampleItem :: LegendItemConfiguration where
  "sampleItem = \<lparr>item_rule = Some sampleRule, item_title = ''area''\<rparr>"

definition sampleConfig :: LegendsConfiguration where
  "sampleConfig =
     \<lparr>styles = Some [\<lparr>style_name = Some ''A'', rules = [sampleRule]\<rparr>],
      configs = None,
      remoteLegends = None,
      frame_size = (Num 200, Num 100),
      maxColumnHeight = None,
      maxColumnWidth = None,
      overflow = None,
      hideRect = None\<rparr>"

text \<open>Columns of height 100 and width 150, under the default policy and under
  \<^verbatim>\<open>auto\<close>; and a column height of 0.\<close>

definition pagedConfig :: LegendsConfiguration where
  "pagedConfig = sampleConfig\<lparr>maxColumnHeight := Some (Num 100), maxColumnWidth := Some (Num 150)\<rparr>"

definition autoConfig :: LegendsConfiguration where
  "autoConfig = pagedConfig\<lparr>overflow := Some Auto\<rparr>"

definition zeroHeightConfig :: LegendsConfiguration where
  "zeroHeightConfig = sampleConfig\<lparr>maxColumnHeight := Some (Num 0)\<rparr>"

definition sampleLegend :: LegendConfiguration where
  "sampleLegend = \<lparr>items = [sampleItem, sampleItem], title = ''B''\<rparr>"

definition sampleRemote :: RemoteLegend where
  "sampleRemote = \<lparr>url = ''https://example.org/legend.png'', remote_title = ''roads''\<rparr>"

text \<open>A placed item group with a given label.\<close>

definition sampleGroup :: "string \<Rightarrow> element" where
  "sampleGroup label =
     appendChild (attr ''class'' (Str ''legend-item'') (create ''g''))
       (set_text label (create ''text''))"

section \<open>Properties of the symbol geometry\<close>

text \<open>
  Claim C7. For the kinds Mark, Icon and Text, and for every kind that is none of
  Mark, Icon, Text, Fill, Line, the geometry is the point (22.5, 15), the centre of the
  45 by 30 icon box; so an unknown kind gets the geometry of Mark. The function is total:
  it has no failing branch.
\<close>

theorem getGeometryForSymbolizer_point:
  "kind s \<notin> {''Fill'', ''Line''} \<Longrightarrow>
     getGeometryForSymbolizer s = OlGeomPoint (45 / 2, 15) \<and>
     getGeometryForSymbolizer s = getGeometryForSymbolizer (s\<lparr>kind := ''Mark''\<rparr>)"
  by (simp add: getGeometryForSymbolizer_def iconSize_def Let_def)

theorem getGeometryForSymbolizer_point_witness:
  "getGeometryForSymbolizer \<lparr>kind = ''Mark'', payload = []\<rparr> = OlGeomPoint (45 / 2, 15) \<and>
   getGeometryForSymbolizer \<lparr>kind = ''Icon'', payload = []\<rparr> = OlGeomPoint (45 / 2, 15) \<and>
   getGeometryForSymbolizer \<lparr>kind = ''Text'', payload = []\<rparr> = OlGeomPoint (45 / 2, 15) \<and>
   getGeometryForSymbolizer \<lparr>kind = ''Raster'', payload = []\<rparr> = OlGeomPoint (45 / 2, 15) \<and>
   getGeometryForSymbolizer \<lparr>kind = ''Raster'', payload = []\<rparr> =
     getGeometryForSymbolizer \<lparr>kind = ''Mark'', payload = []\<rparr>"
  using getGeometryForSymbolizer_point [of "\<lparr>kind = ''Mark'', payload = []\<rparr>"]
        getGeometryForSymbolizer_point [of "\<lparr>kind = ''Icon'', payload = []\<rparr>"]
        getGeometryForSymbolizer_point [of "\<lparr>kind = ''Text'', payload = []\<rparr>"]
        getGeometryForSymbolizer_point [of "\<lparr>kind = ''Raster'', payload = []\<rparr>"]
  by simp

text \<open>
  Claim C8. For a Fill symbolizer the geometry is a polygon with one ring, the ring is
  closed (its last vertex is its first) and its vertex set is exactly
  (3,3), (42,3), (42,27), (3,27). For a Line symbolizer the geometry is a line string of
  four points from (7.5, 5) to (37.5, 25).
\<close>

theorem getGeometryForSymbolizer_fill_line:
  "(\<exists>ring. getGeometryForSymbolizer (s\<lparr>kind := ''Fill''\<rparr>) = OlGeomPolygon [ring] \<and>
      set ring = {(3, 3), (42, 3), (42, 27), (3, 27)} \<and> hd ring = last ring \<and> ring \<noteq> []) \<and>
   (\<exists>pts. getGeometryForSymbolizer (s\<lparr>kind := ''Line''\<rparr>) = OlGeomLineString pts \<and>
      length pts = 4 \<and> hd pts = (15 / 2, 5) \<and> last pts = (75 / 2, 25))"
  by (auto simp add: getGeometryForSymbolizer_def iconSize_def Let_def)

section \<open>Properties of the icon synthesis\<close>

lemma foldl_push: "foldl (\<lambda>acc x. acc @ [f x]) acc xs = acc @ map f xs"
  by (induction xs arbitrary: acc) simp_all

lemma getRuleIcon_failingEnv:
  "getRuleIcon failingEnv sampleRule = Rejected (Some ''unsupported symbolizer'')"
  by (simp add: getRuleIcon_def Let_def failingEnv_def sampleEnv_def drawOutput_def)

lemma getRuleIcon_sampleEnv: "getRuleIcon sampleEnv sampleRule = Fulfilled ''data:image/png''"
  by (simp add: getRuleIcon_def Let_def sampleEnv_def drawOutput_def sampleRule_def)

lemma getRuleIcon_cases:
  "getRuleIcon env rule =
     (case writeStyle env (iconStyle rule) of
        Inl e \<Rightarrow> Rejected None
      | Inr res \<Rightarrow>
          (case ws_errors res of
             Some (e # es) \<Rightarrow> Rejected (Some e)
           | _ \<Rightarrow>
             (case drawOutput env (map getGeometryForSymbolizer (symbolizers rule))
                     (ws_output res) (newRenderer env) of
                Inl e \<Rightarrow> Rejected None
              | Inr canvas \<Rightarrow>
                  (case toDataURL env canvas ''image/png'' of
                     Inl e \<Rightarrow> Rejected None
                   | Inr uri \<Rightarrow> Fulfilled uri))))"
  by (simp add: getRuleIcon_def Let_def foldl_push split: sum.splits option.splits list.splits)

lemma getRuleIcon_settles: "getRuleIcon env rule \<noteq> Pending"
  by (simp add: getRuleIcon_cases split: sum.splits option.splits list.splits)

lemma run_append:
  "run env c (xs @ ys) = (case run env c xs of Inl e \<Rightarrow> Inl e | Inr c' \<Rightarrow> run env c' ys)"
  by (induction xs arbitrary: c) (simp_all split: sum.splits)

lemma drawGeoms_run: "drawGeoms env geoms c = run env c (map DrawGeometry geoms)"
  by (induction geoms arbitrary: c) (simp_all split: sum.splits)

lemma drawStyles_run:
  "drawStyles env geoms ss c = run env c (concat (map (\<lambda>s. SetStyle s # map DrawGeometry geoms) ss))"
proof (induction ss arbitrary: c)
  case Nil
  then show ?case by simp
next
  case (Cons s ss)
  show ?case
  proof (cases "setStyle env c s")
    case (Inl e)
    then show ?thesis by simp
  next
    case (Inr c1)
    then show ?thesis
      by (simp add: run_append drawGeoms_run [symmetric] Cons.IH split: sum.splits)
  qed
qed

lemma drawOutput_Static:
  "drawOutput env geoms (Static st) c = run env c (draw_calls geoms st)"
  by (cases st) (simp_all add: drawOutput_def draw_calls_def drawStyles_run drawGeoms_run split: sum.splits)

lemma drawOutput_StyleFunction:
  "drawOutput env geoms (StyleFunction f) c =
     (case f (case geoms of [] \<Rightarrow> None | g # _ \<Rightarrow> Some g) 1 of
        Inl e \<Rightarrow> Inl e
      | Inr st \<Rightarrow> run env c (draw_calls geoms st))"
  using drawOutput_Static [of env geoms _ c]
  by (simp add: drawOutput_def split: sum.splits olStyleLike.splits)

lemma run_take:
  "succeeded env calls cs i \<Longrightarrow> run env (cs ! 0) (take i calls) = Inr (cs ! i)"
proof (induction i arbitrary: cs)
  case 0
  then show ?case by simp
next
  case (Suc i)
  from Suc.prems have s: "succeeded env calls (butlast cs) i"
    by (auto simp add: succeeded_def nth_butlast)
  from Suc.prems have l: "length cs = Suc (Suc i)" and i: "i < length calls"
    and c: "call env (cs ! i) (calls ! i) = Inr (cs ! Suc i)"
    by (auto simp add: succeeded_def)
  have "run env (butlast cs ! 0) (take i calls) = Inr (butlast cs ! i)"
    using Suc.IH [OF s] .
  with l have "run env (cs ! 0) (take i calls) = Inr (cs ! i)"
    by (simp add: nth_butlast)
  with i c show ?case
    by (simp add: take_Suc_conv_app_nth run_append)
qed

lemma run_succeeded:
  assumes "succeeded env calls cs i"
  shows "i = length calls \<Longrightarrow> run env (cs ! 0) calls = Inr (cs ! i)"
    and "i < length calls \<Longrightarrow> call env (cs ! i) (calls ! i) = Inl x \<Longrightarrow> run env (cs ! 0) calls = Inl x"
proof -
  show "run env (cs ! 0) calls = Inr (cs ! i)" if "i = length calls"
    using run_take [OF assms] that by simp
  show "run env (cs ! 0) calls = Inl x" if "i < length calls" "call env (cs ! i) (calls ! i) = Inl x"
  proof -
    have "calls = take i calls @ calls ! i # drop (Suc i) calls"
      using that(1) by (simp add: id_take_nth_drop)
    then have "run env (cs ! 0) calls = run env (cs ! 0) (take i calls @ calls ! i # drop (Suc i) calls)"
      by simp
    also have "\<dots> = Inl x"
      using run_take [OF assms] that(2) by (simp add: run_append)
    finally show ?thesis .
  qed
qed

text \<open>
  Claim C4. The promise of \<^verbatim>\<open>getRuleIcon\<close> always settles. When the promise of the
  parser rejects, it is rejected without a value. When the parser's answer has a
  non-empty array of errors, it is rejected with the first of them, whatever the rest of
  the body does afterwards. Otherwise: when the style function throws, it is rejected
  without a value; and when the renderer, started fresh, has taken the first \<open>i\<close> of the
  calls (set each style, draw under it one geometry for each symbolizer), then it is
  rejected without a value if the next call, \<^verbatim>\<open>setStyle\<close> or \<^verbatim>\<open>drawGeometry\<close>, throws,
  and if no call is left it is rejected without a value when \<^verbatim>\<open>toDataURL\<close> throws
  and fulfilled with the data URI that \<^verbatim>\<open>toDataURL('image/png')\<close> gives for the canvas
  otherwise.
\<close>

theorem getRuleIcon_outcome:
  "getRuleIcon env rule \<noteq> Pending \<and>
   (writeStyle env (iconStyle rule) = Inl x \<longrightarrow> getRuleIcon env rule = Rejected None) \<and>
   (writeStyle env (iconStyle rule) = Inr res \<longrightarrow>
      (ws_errors res = Some (e # es) \<longrightarrow> getRuleIcon env rule = Rejected (Some e)) \<and>
      (ws_errors res = None \<or> ws_errors res = Some [] \<longrightarrow>
         (\<forall>f. ws_output res = StyleFunction f \<and>
               f (case symbolizers rule of [] \<Rightarrow> None | s # _ \<Rightarrow> Some (getGeometryForSymbolizer s)) 1 = Inl y \<longrightarrow>
               getRuleIcon env rule = Rejected None) \<and>
         (\<forall>olStyle cs i.
            (ws_output res = Static olStyle \<or>
             (\<exists>f. ws_output res = StyleFunction f \<and>
                   f (case symbolizers rule of [] \<Rightarrow> None | s # _ \<Rightarrow> Some (getGeometryForSymbolizer s)) 1 =
                     Inr olStyle)) \<and>
            cs ! 0 = newRenderer env \<and>
            succeeded env (draw_calls (map getGeometryForSymbolizer (symbolizers rule)) olStyle) cs i \<longrightarrow>
            (i < length (draw_calls (map getGeometryForSymbolizer (symbolizers rule)) olStyle) \<and>
             call env (cs ! i) (draw_calls (map getGeometryForSymbolizer (symbolizers rule)) olStyle ! i) = Inl z \<longrightarrow>
               getRuleIcon env rule = Rejected None) \<and>
            (i = length (draw_calls (map getGeometryForSymbolizer (symbolizers rule)) olStyle) \<longrightarrow>
               getRuleIcon env rule =
                 (case toDataURL env (cs ! i) ''image/png'' of
                    Inl u \<Rightarrow> Rejected None
                  | Inr uri \<Rightarrow> Fulfilled uri)))))"
proof -
  let ?geoms = "map getGeometryForSymbolizer (symbolizers rule)"
  let ?first = "case symbolizers rule of [] \<Rightarrow> None | s # _ \<Rightarrow> Some (getGeometryForSymbolizer s)"
  have first: "(case ?geoms of [] \<Rightarrow> None | g # _ \<Rightarrow> Some g) = ?first"
    by (cases "symbolizers rule") simp_all
  have a: "getRuleIcon env rule = Rejected None" if "writeStyle env (iconStyle rule) = Inl x"
    using that by (simp add: getRuleIcon_cases)
  have b: "getRuleIcon env rule = Rejected (Some e)"
    if "writeStyle env (iconStyle rule) = Inr res" "ws_errors res = Some (e # es)"
    using that by (simp add: getRuleIcon_cases)
  have noerr: "getRuleIcon env rule =
      (case drawOutput env ?geoms (ws_output res) (newRenderer env) of
         Inl e \<Rightarrow> Rejected None
       | Inr canvas \<Rightarrow>
           (case toDataURL env canvas ''image/png'' of
              Inl e \<Rightarrow> Rejected None
            | Inr uri \<Rightarrow> Fulfilled uri))"
    if "writeStyle env (iconStyle rule) = Inr res" "ws_errors res = None \<or> ws_errors res = Some []"
    using that by (auto simp add: getRuleIcon_cases)
  have c: "getRuleIcon env rule = Rejected None"
    if "writeStyle env (iconStyle rule) = Inr res" "ws_errors res = None \<or> ws_errors res = Some []"
      "ws_output res = StyleFunction f" "f ?first 1 = Inl y" for f
    using that by (simp add: noerr drawOutput_StyleFunction first)
  have out: "drawOutput env ?geoms (ws_output res) (newRenderer env) =
             run env (newRenderer env) (draw_calls ?geoms olStyle)"
    if "ws_output res = Static olStyle \<or>
        (\<exists>f. ws_output res = StyleFunction f \<and> f ?first 1 = Inr olStyle)" for olStyle
    using that by (auto simp add: drawOutput_Static drawOutput_StyleFunction first)
  have d: "getRuleIcon env rule = Rejected None"
    if "writeStyle env (iconStyle rule) = Inr res" "ws_errors res = None \<or> ws_errors res = Some []"
      "ws_output res = Static olStyle \<or>
        (\<exists>f. ws_output res = StyleFunction f \<and> f ?first 1 = Inr olStyle)"
      "cs ! 0 = newRenderer env" "succeeded env (draw_calls ?geoms olStyle) cs i"
      "i < length (draw_calls ?geoms olStyle)"
      "call env (cs ! i) (draw_calls ?geoms olStyle ! i) = Inl z" for olStyle cs i
    using run_succeeded(2) [OF that(5) that(6) that(7)] that(4)
    by (simp add: noerr [OF that(1,2)] out [OF that(3)])
  have e: "getRuleIcon env rule =
             (case toDataURL env (cs ! i) ''image/png'' of
                Inl u \<Rightarrow> Rejected None
              | Inr uri \<Rightarrow> Fulfilled uri)"
    if "writeStyle env (iconStyle rule) = Inr res" "ws_errors res = None \<or> ws_errors res = Some []"
      "ws_output res = Static olStyle \<or>
        (\<exists>f. ws_output res = StyleFunction f \<and> f ?first 1 = Inr olStyle)"
      "cs ! 0 = newRenderer env" "succeeded env (draw_calls ?geoms olStyle) cs i"
      "i = length (draw_calls ?geoms olStyle)" for olStyle cs i
    using run_succeeded(1) [OF that(5) that(6)] that(4)
    by (simp add: noerr [OF that(1,2)] out [OF that(3)])
  show ?thesis
    using getRuleIcon_settles [of env rule] a b c d e by blast
qed

lemma sampleRule_calls:
  "draw_calls (map getGeometryForSymbolizer (symbolizers sampleRule)) (OneStyle ''fill'') =
     [SetStyle ''fill'',
      DrawGeometry (getGeometryForSymbolizer \<lparr>kind = ''Fill'', payload = []\<rparr>)]"
  by (simp add: draw_calls_def sampleRule_def)

theorem getRuleIcon_outcome_witness:
  "getRuleIcon failingEnv sampleRule = Rejected (Some ''unsupported symbolizer'') \<and>
   getRuleIcon throwingEnv sampleRule = Rejected None \<and>
   getRuleIcon sampleEnv sampleRule = Fulfilled ''data:image/png''"
proof -
  let ?calls = "draw_calls (map getGeometryForSymbolizer (symbolizers sampleRule)) (OneStyle ''fill'')"
  let ?ok = "\<lparr>ws_output = Static (OneStyle ''fill''), ws_errors = None\<rparr>"
  let ?bad = "\<lparr>ws_output = Static (StyleArray []), ws_errors = Some [''unsupported symbolizer'']\<rparr>"
  have "writeStyle failingEnv (iconStyle sampleRule) = Inr ?bad"
    and "ws_errors ?bad = Some (''unsupported symbolizer'' # [])"
    by (simp_all add: failingEnv_def sampleEnv_def)
  with getRuleIcon_outcome [of failingEnv sampleRule _ ?bad "''unsupported symbolizer''" "[]"]
  have 1: "getRuleIcon failingEnv sampleRule = Rejected (Some ''unsupported symbolizer'')"
    by blast
  have "writeStyle throwingEnv (iconStyle sampleRule) = Inr ?ok"
    and "ws_errors ?ok = None \<or> ws_errors ?ok = Some []"
    and "ws_output ?ok = Static (OneStyle ''fill'')"
    and "[[]] ! 0 = newRenderer throwingEnv"
    and "succeeded throwingEnv ?calls [[]] 0"
    and "0 < length ?calls"
    and "call throwingEnv ([[]] ! 0) (?calls ! 0) = Inl ''TypeError''"
    by (simp_all add: throwingEnv_def sampleEnv_def succeeded_def sampleRule_calls)
  with getRuleIcon_outcome [of throwingEnv sampleRule _ ?ok _ _ _ "''TypeError''"]
  have 2: "getRuleIcon throwingEnv sampleRule = Rejected None"
    by blast
  let ?cs = "[[], [''fill''], [''fill'', ''geometry'']]"
  have "writeStyle sampleEnv (iconStyle sampleRule) = Inr ?ok"
    and "ws_errors ?ok = None \<or> ws_errors ?ok = Some []"
    and "ws_output ?ok = Static (OneStyle ''fill'')"
    and "?cs ! 0 = newRenderer sampleEnv"
    and "succeeded sampleEnv ?calls ?cs 2"
    and "2 = length ?calls"
    by (simp_all add: sampleEnv_def succeeded_def sampleRule_calls less_Suc_eq numeral_2_eq_2)
  with getRuleIcon_outcome [of sampleEnv sampleRule _ ?ok]
  have "getRuleIcon sampleEnv sampleRule =
          (case toDataURL sampleEnv (?cs ! 2) ''image/png'' of
             Inl u \<Rightarrow> Rejected None
           | Inr uri \<Rightarrow> Fulfilled uri)"
    by blast
  then have 3: "getRuleIcon sampleEnv sampleRule = Fulfilled ''data:image/png''"
    by (simp add: sampleEnv_def)
  from 1 2 3 show ?thesis by simp
qed

section \<open>Properties of the legend items\<close>

text \<open>
  Claim C10. For an item without a rule, \<^verbatim>\<open>renderLegendItem\<close> returns
  \<^verbatim>\<open>undefined\<close> at once (no promise); the container is as it was, with no child added,
  and both coordinates of the cursor are unchanged.
\<close>

theorem renderLegendItem_no_rule:
  "item_rule item = None \<Longrightarrow>
     renderLegendItem config env container item position = (ReturnsUndefined, container, position)"
  by (simp add: renderLegendItem_def)

theorem renderLegendItem_no_rule_witness:
  "item_rule \<lparr>item_rule = None, item_title = ''heading''\<rparr> = None \<and>
   renderLegendItem sampleConfig sampleEnv (newFrame sampleConfig)
       \<lparr>item_rule = None, item_title = ''heading''\<rparr> (Num 0, Num 20) =
     (ReturnsUndefined, newFrame sampleConfig, (Num 0, Num 20))"
  using renderLegendItem_no_rule [of "\<lparr>item_rule = None, item_title = ''heading''\<rparr>"
      sampleConfig sampleEnv "newFrame sampleConfig" "(Num 0, Num 20)"]
  by simp

text \<open>
  Claim C1, as the code has it. For an item whose icon synthesis rejects, the promise of
  \<^verbatim>\<open>renderLegendItem\<close> is fulfilled; the container gains the group of the item (class
  \<^verbatim>\<open>legend-item\<close>, appended before the icon is asked for) and that group has no child:
  no rectangle, no image, no text. The cursor is left as it was: the row does not advance,
  because the advance is part of the callback that a rejection skips.
\<close>

theorem renderLegendItem_rejected:
  "item_rule item = Some rule \<Longrightarrow> getRuleIcon env rule = Rejected r \<Longrightarrow>
     renderLegendItem config env container item position =
       (ReturnsPromise (Fulfilled ()),
        appendChild container
          (attr ''title'' (Str (item_title item)) (attr ''class'' (Str ''legend-item'') (create ''g''))),
        position) \<and>
     children (attr ''title'' (Str (item_title item)) (attr ''class'' (Str ''legend-item'') (create ''g''))) = []"
  by (simp add: renderLegendItem_def Let_def attr_def create_def)

theorem renderLegendItem_rejected_witness:
  "item_rule sampleItem = Some sampleRule \<and>
   getRuleIcon failingEnv sampleRule = Rejected (Some ''unsupported symbolizer'') \<and>
   renderLegendItem sampleConfig failingEnv (newFrame sampleConfig) sampleItem (Num 0, Num 20) =
       (ReturnsPromise (Fulfilled ()),
        appendChild (newFrame sampleConfig)
          (attr ''title'' (Str ''area'') (attr ''class'' (Str ''legend-item'') (create ''g''))),
        (Num 0, Num 20))"
  using renderLegendItem_rejected [of sampleItem sampleRule failingEnv "Some ''unsupported symbolizer''"
      sampleConfig "newFrame sampleConfig" "(Num 0, Num 20)"] getRuleIcon_failingEnv
  by (simp add: sampleItem_def)

text \<open>The claim as stated fails: with the cursor at row 20 and a rejected icon, the row
  after the item is 20, not 20 + 30 + 5 = 55.\<close>

theorem renderLegendItem_rejected_counterexample:
  "item_rule sampleItem = Some sampleRule \<and>
   getRuleIcon failingEnv sampleRule = Rejected (Some ''unsupported symbolizer'') \<and>
   snd (snd (snd (renderLegendItem sampleConfig failingEnv (newFrame sampleConfig) sampleItem (Num 0, Num 20))))
     = Num 20 \<and>
   js_add (Num 20) (Num (snd iconSize + 5)) = Num 55 \<and>
   snd (snd (snd (renderLegendItem sampleConfig failingEnv (newFrame sampleConfig) sampleItem (Num 0, Num 20))))
     \<noteq> js_add (Num 20) (Num (snd iconSize + 5))"
  using getRuleIcon_failingEnv
  by (simp add: renderLegendItem_def sampleItem_def Let_def iconSize_def)

section \<open>Properties of the legend list\<close>

lemma items_foldl:
  "items (foldl (\<lambda>c rule. c\<lparr>items := items c @ [f rule]\<rparr>) c0 rs) = items c0 @ map f rs"
  by (induction rs arbitrary: c0) simp_all

lemma title_foldl:
  "title (foldl (\<lambda>c rule. c\<lparr>items := items c @ [f rule]\<rparr>) c0 rs) = title c0"
  by (induction rs arbitrary: c0) simp_all

text \<open>
  Claim C5. The legend list of \<^verbatim>\<open>render\<close> is the explicitly configured entries, in
  their order, followed by one legend for each style, in the order of the styles. The
  legend of a style has the name of the style as its title (the empty string when the
  style has no name) and one item for each rule, in the order of the rules; the item
  carries the rule and has the name of the rule as its title.
\<close>

theorem buildLegends_order:
  "buildLegends cfg =
     map ItemObject (case configs cfg of None \<Rightarrow> [] | Some cs \<Rightarrow> cs) @
     map (\<lambda>s. LegendObject (extractConfigFromStyle s)) (case styles cfg of None \<Rightarrow> [] | Some ss \<Rightarrow> ss) \<and>
   title (extractConfigFromStyle s) = (case style_name s of None \<Rightarrow> [] | Some n \<Rightarrow> n) \<and>
   items (extractConfigFromStyle s) =
     map (\<lambda>rule. \<lparr>item_rule = Some rule, item_title = rule_name rule\<rparr>) (rules s)"
  by (simp add: buildLegends_def extractConfigFromStyle_def Let_def foldl_push items_foldl title_foldl
      split: option.splits)

section \<open>Properties of the layout\<close>

lemma children_appendChild: "children (appendChild p c) = children p @ [c]"
  by (simp add: appendChild_def)

lemma attrs_appendChild: "attrs (appendChild p c) = attrs p"
  by (simp add: appendChild_def)

lemma children_attr: "children (attr n v e) = children e"
  by (simp add: attr_def)

lemma renderLegendItem_children:
  "\<exists>xs. children (fst (snd (renderLegendItem cfg env container item position))) = children container @ xs"
  by (simp add: renderLegendItem_def Let_def children_appendChild split: option.splits promise.splits)

lemma renderItemStep_children:
  "\<exists>xs. children (fst (snd (renderItemStep cfg env (p, svg, position) item))) = children svg @ xs"
proof (cases p)
  case (Fulfilled u)
  obtain r svg1 position1 where r: "renderLegendItem cfg env svg item position = (r, svg1, position1)"
    by (cases "renderLegendItem cfg env svg item position") auto
  from renderLegendItem_children [of cfg env svg item position] r
  obtain xs where "children svg1 = children svg @ xs" by auto
  with r Fulfilled show ?thesis
    by (cases r) (simp_all add: renderItemStep_def)
qed (simp_all add: renderItemStep_def)

lemma foldl_renderItemStep_children:
  "\<exists>xs. children (fst (snd (foldl (renderItemStep cfg env) (p, svg, position) its))) = children svg @ xs"
proof (induction its arbitrary: p svg position)
  case Nil
  then show ?case by simp
next
  case (Cons item its)
  obtain p1 svg1 position1 where s: "renderItemStep cfg env (p, svg, position) item = (p1, svg1, position1)"
    by (cases "renderItemStep cfg env (p, svg, position) item") auto
  from renderItemStep_children [of cfg env p svg position item] s
  obtain xs where xs: "children svg1 = children svg @ xs" by auto
  from Cons.IH [of p1 svg1 position1]
  obtain ys where "children (fst (snd (foldl (renderItemStep cfg env) (p1, svg1, position1) its))) = children svg1 @ ys"
    by auto
  with s xs show ?case by simp
qed

lemma renderLegendItem_return:
  "fst (renderLegendItem cfg env container item position) = ReturnsUndefined \<or>
   fst (renderLegendItem cfg env container item position) = ReturnsPromise (Fulfilled ())"
  using getRuleIcon_settles [of env]
  by (simp add: renderLegendItem_def Let_def split: option.splits promise.splits)

lemma renderItemStep_Fulfilled:
  "renderItemStep cfg env (Fulfilled u, svg, position) item =
     (Fulfilled (), snd (renderLegendItem cfg env svg item position))"
  using renderLegendItem_return [of cfg env svg item position]
  by (cases "renderLegendItem cfg env svg item position")
     (auto simp add: renderItemStep_def split: item_return.splits)

lemma foldl_renderItemStep:
  "foldl (renderItemStep cfg env) (Fulfilled u, state) its =
     (Fulfilled (),
      foldl (\<lambda>state item. snd (renderLegendItem cfg env (fst state) item (snd state))) state its)"
proof (induction its arbitrary: u state)
  case Nil
  then show ?case by simp
next
  case (Cons item its)
  obtain svg position where s: "state = (svg, position)" by (cases state) auto
  show ?case
    by (simp add: s renderItemStep_Fulfilled Cons.IH)
qed

lemma get_attr_legendTitleText:
  "get_attr (legendTitleText t p) ''dx'' = Some (Number (fst p))"
  "get_attr (legendTitleText t p) ''dy'' =
     Some (if js_eq (snd p) (Num 0) then Str ''1em'' else Number (js_add (snd p) (Num 15)))"
  "get_attr (legendTitleText t p) ''class'' = Some (Str ''legend-title'')"
  "tag (legendTitleText t p) = ''text''"
  "textContent (legendTitleText t p) = t"
  by (simp_all add: legendTitleText_def get_attr_def attr_def set_text_def create_def update_conv')

text \<open>
  Claim C2. Under an overflow policy other than \<^verbatim>\<open>auto\<close> and with a cursor whose
  column is not 0, the check before the title moves the cursor to the column increased by
  \<^verbatim>\<open>maxColumnWidth\<close> and to row 0 when the number of items times (30 + 5), plus 20,
  plus the current row exceeds \<^verbatim>\<open>maxColumnHeight\<close>, and leaves it unchanged otherwise.
  \<^verbatim>\<open>renderLegend\<close> goes on from that cursor: the title, when there is one, is a text
  with \<open>dx\<close> the column and \<open>dy\<close> \<^verbatim>\<open>1em\<close> at row 0 and the row plus 15 otherwise, and it
  takes 20 rows; the group of the title is appended to the frame; then the items are
  placed one after the other by \<^verbatim>\<open>renderLegendItem\<close>, the first at that cursor and each
  next one at the cursor the one before left; the promise is fulfilled and the cursor left
  by the last item is the cursor after the legend.
\<close>

theorem columnBreakBefore_group:
  assumes "overflow cfg \<noteq> Some Auto" and "\<not> js_eq (fst position) (Num 0)"
  shows
    "let moved = (if js_gt (js_add (Num (of_nat (length (items config)) * (30 + 5) + 20)) (snd position))
                       (toNumber (maxColumnHeight cfg))
                  then (js_add (fst position) (toNumber (maxColumnWidth cfg)), Num 0)
                  else position);
         start = (if title config \<noteq> [] then (fst moved, js_add (snd moved) (Num 20)) else moved);
         group = (if title config \<noteq> []
                  then appendChild (create ''g'') (legendTitleText (title config) moved)
                  else create ''g'')
     in columnBreakBefore cfg (LegendObject config) position = Inr moved \<and>
        renderLegend cfg env (LegendObject config) svg position =
          (Inr (Fulfilled ()),
           foldl (\<lambda>state item. snd (renderLegendItem cfg env (fst state) item (snd state)))
             (appendChild svg group, start) (items config)) \<and>
        children (fst (snd (renderLegend cfg env (LegendObject config) svg position))) ! length (children svg) =
          group \<and>
        (title config = [] \<longrightarrow> children group = []) \<and>
        (title config \<noteq> [] \<longrightarrow>
           children group = [legendTitleText (title config) moved] \<and>
           tag (legendTitleText (title config) moved) = ''text'' \<and>
           textContent (legendTitleText (title config) moved) = title config \<and>
           get_attr (legendTitleText (title config) moved) ''dx'' = Some (Number (fst moved)) \<and>
           get_attr (legendTitleText (title config) moved) ''dy'' =
             Some (if js_eq (snd moved) (Num 0) then Str ''1em''
                   else Number (js_add (snd moved) (Num 15))))"
proof -
  let ?moved = "if js_gt (js_add (Num (of_nat (length (items config)) * (30 + 5) + 20)) (snd position))
                       (toNumber (maxColumnHeight cfg))
                  then (js_add (fst position) (toNumber (maxColumnWidth cfg)), Num 0)
                  else position"
  let ?start = "if title config \<noteq> [] then (fst ?moved, js_add (snd ?moved) (Num 20)) else ?moved"
  let ?group = "if title config \<noteq> []
                  then appendChild (create ''g'') (legendTitleText (title config) ?moved)
                  else create ''g''"
  have cb: "columnBreakBefore cfg (LegendObject config) position = Inr ?moved"
    using assms by (simp add: columnBreakBefore_def Let_def iconSize_def)
  have rl: "renderLegend cfg env (LegendObject config) svg position =
          (Inr (Fulfilled ()),
           foldl (\<lambda>state item. snd (renderLegendItem cfg env (fst state) item (snd state)))
             (appendChild svg ?group, ?start) (items config))"
  proof (cases "title config = []")
    case True
    then show ?thesis
      unfolding renderLegend_def cb
      by (simp add: Let_def foldl_renderItemStep)
  next
    case False
    then show ?thesis
      unfolding renderLegend_def cb
      by (simp add: Let_def foldl_renderItemStep)
  qed
  have "renderLegend cfg env (LegendObject config) svg position =
          (Inr (Fulfilled ()), snd (foldl (renderItemStep cfg env)
             (Fulfilled (), appendChild svg ?group, ?start) (items config)))"
    by (simp add: rl foldl_renderItemStep)
  moreover obtain xs where "children (fst (snd (foldl (renderItemStep cfg env)
        (Fulfilled (), appendChild svg ?group, ?start) (items config)))) = children (appendChild svg ?group) @ xs"
    using foldl_renderItemStep_children [of cfg env "Fulfilled ()" "appendChild svg ?group" ?start "items config"]
    by auto
  ultimately have nth: "children (fst (snd (renderLegend cfg env (LegendObject config) svg position))) !
      length (children svg) = ?group"
    by (simp add: children_appendChild nth_append)
  have g0: "title config = [] \<longrightarrow> children ?group = []"
    by (simp add: create_def)
  have g1: "title config \<noteq> [] \<longrightarrow> children ?group = [legendTitleText (title config) ?moved]"
    by (simp add: create_def children_appendChild)
  show ?thesis
    unfolding Let_def
    using cb rl nth g0 g1 get_attr_legendTitleText [of "title config" ?moved]
    by (intro conjI impI) simp_all
qed

theorem columnBreakBefore_group_witness:
  "columnBreakBefore pagedConfig (LegendObject sampleLegend) (Num 150, Num 40) = Inr (Num 300, Num 0) \<and>
   children (fst (snd (renderLegend pagedConfig sampleEnv (LegendObject sampleLegend)
       (newFrame pagedConfig) (Num 150, Num 40)))) ! length (children (newFrame pagedConfig)) =
     appendChild (create ''g'') (legendTitleText ''B'' (Num 300, Num 0)) \<and>
   get_attr (legendTitleText ''B'' (Num 300, Num 0)) ''dx'' = Some (Number (Num 300)) \<and>
   get_attr (legendTitleText ''B'' (Num 300, Num 0)) ''dy'' = Some (Str ''1em'') \<and>
   snd (snd (renderLegend pagedConfig sampleEnv (LegendObject sampleLegend)
       (newFrame pagedConfig) (Num 150, Num 40))) = (Num 450, Num 5) \<and>
   renderLegend pagedConfig sampleEnv (LegendObject \<lparr>items = [], title = []\<rparr>)
       (newFrame pagedConfig) (Num 150, Num 90) =
     (Inr (Fulfilled ()), appendChild (newFrame pagedConfig) (create ''g''), (Num 300, Num 0)) \<and>
   columnBreakBefore pagedConfig (LegendObject sampleLegend) (Num 150, Num 5) = Inr (Num 150, Num 5) \<and>
   snd (snd (renderLegend pagedConfig sampleEnv (LegendObject sampleLegend)
       (newFrame pagedConfig) (Num 150, Num 5))) = (Num 300, Num 5)"
  using columnBreakBefore_group [of pagedConfig "(Num 150, Num 40)" sampleLegend sampleEnv "newFrame pagedConfig"]
        columnBreakBefore_group [of pagedConfig "(Num 150, Num 90)" "\<lparr>items = [], title = []\<rparr>" sampleEnv
          "newFrame pagedConfig"]
        columnBreakBefore_group [of pagedConfig "(Num 150, Num 5)" sampleLegend sampleEnv "newFrame pagedConfig"]
  by (simp add: pagedConfig_def sampleConfig_def sampleLegend_def Let_def renderLegendItem_def sampleItem_def
      getRuleIcon_sampleEnv iconSize_def appendChild_def newFrame_def attr_def create_def set_style_def
      set_text_def legendTitleText_def get_attr_def)

section \<open>Properties of the remote legends\<close>

lemma js_add_20_5: "js_add (js_add y (Num 20)) (Num 5) = js_add y (Num 25)"
  by (cases y) simp_all

lemma js_add_height: "js_add (js_add (js_add (Num h) (Num 20)) (Num 5)) y = js_add (Num (h + 25)) y"
  by (cases y) simp_all

lemma get_attr_remoteImage:
  "tag (remoteImage base64 img p) = ''svg:image''"
  "get_attr (remoteImage base64 img p) ''x'' = Some (Number (fst p))"
  "get_attr (remoteImage base64 img p) ''y'' = Some (Number (snd p))"
  "get_attr (remoteImage base64 img p) ''width'' = Some (Number (Num (img_width img)))"
  "get_attr (remoteImage base64 img p) ''height'' = Some (Number (Num (img_height img)))"
  "get_attr (remoteImage base64 img p) ''href'' = Some (Str base64)"
  by (simp_all add: remoteImage_def get_attr_def attr_def create_def update_conv')

lemma get_attr_remoteTitle:
  "tag (remoteTitle t p) = ''text''"
  "textContent (remoteTitle t p) = t"
  "get_attr (remoteTitle t p) ''dx'' = Some (Number (fst p))"
  "get_attr (remoteTitle t p) ''dy'' = Some (Number (snd p))"
  by (simp_all add: remoteTitle_def get_attr_def attr_def set_text_def create_def update_conv')

lemma renderImage_loaded:
  assumes "fetch env (url remote) = Inr response" and "blob env response = Inr imageBlob"
    and "readAsDataURL env imageBlob = Inr base64" and "decode env base64 = Inr img"
  shows "let breaks = (overflow cfg = Some Auto \<and>
               js_gt (js_add (Num (img_height img + 25)) (snd position)) (toNumber (maxColumnHeight cfg)));
             x = (if breaks then js_add (fst position) (toNumber (maxColumnWidth cfg)) else fst position);
             titleRow = (if breaks then Num 20 else js_add (snd position) (Num 20));
             y = (if breaks then (if remote_title remote \<noteq> [] then Num 25 else Num 0)
                  else (if remote_title remote \<noteq> [] then js_add (snd position) (Num 25) else snd position))
         in snd (renderImage cfg env (svg, position) remote) = (x, js_add y (Num (img_height img))) \<and>
            children (fst (renderImage cfg env (svg, position) remote)) =
              children svg @
              (if remote_title remote \<noteq> []
               then [appendChild (create ''g'') (remoteTitle (remote_title remote) (x, titleRow))] else []) @
              [remoteImage base64 img (x, y)]"
proof -
  have c: "js_gt (js_add (js_add (js_add (Num (img_height img)) (Num 20)) (Num 5)) (snd position)) m =
           js_gt (js_add (Num (img_height img + 25)) (snd position)) m" for m
    by (simp only: js_add_height)
  show ?thesis
    using assms
    by (simp only: renderImage_def Let_def c js_add_20_5 split: prod.splits)
       (simp add: children_appendChild js_add_20_5)
qed

text \<open>
  Claim C3. Take a remote legend whose image is fetched and decoded, and the cursor
  (column, row) that \<^verbatim>\<open>renderImages\<close> has reached after the references before it.
  Under the policy \<^verbatim>\<open>auto\<close>, when the height of the image plus 25 plus the row exceeds
  \<^verbatim>\<open>maxColumnHeight\<close>, the image is placed in the next column: the image element
  appended to the frame has \<open>x\<close> the column increased by \<^verbatim>\<open>maxColumnWidth\<close> and \<open>y\<close> 25
  when the reference has a title, 0 when it has none. In every other case, so under any
  other policy, \<open>x\<close> is the current column and \<open>y\<close> the current row, 25 further down when
  there is a title. The element is an \<^verbatim>\<open>svg:image\<close> with the natural width and height of
  the image and its data as \<open>href\<close>; it is the last child of the frame, after the group
  of the title when there is one (a text with \<open>dx\<close> the same column and \<open>dy\<close> 5 above the
  image), and nothing else is appended. The cursor then stands below the image.
\<close>

theorem renderImages_overflow:
  assumes "fetch env (url remote) = Inr response" and "blob env response = Inr imageBlob"
    and "readAsDataURL env imageBlob = Inr base64" and "decode env base64 = Inr img"
    and "snd (renderImages cfg env remotes svg0 position0) = position"
  shows "let breaks = (overflow cfg = Some Auto \<and>
               js_gt (js_add (Num (img_height img + 25)) (snd position)) (toNumber (maxColumnHeight cfg)));
             x = (if breaks then js_add (fst position) (toNumber (maxColumnWidth cfg)) else fst position);
             titleRow = (if breaks then Num 20 else js_add (snd position) (Num 20));
             y = (if breaks then (if remote_title remote \<noteq> [] then Num 25 else Num 0)
                  else (if remote_title remote \<noteq> [] then js_add (snd position) (Num 25) else snd position));
             frame = fst (renderImages cfg env (remotes @ [remote]) svg0 position0);
             image = last (children frame)
         in snd (renderImages cfg env (remotes @ [remote]) svg0 position0) = (x, js_add y (Num (img_height img))) \<and>
            image = remoteImage base64 img (x, y) \<and>
            tag image = ''svg:image'' \<and>
            get_attr image ''x'' = Some (Number x) \<and>
            get_attr image ''y'' = Some (Number y) \<and>
            get_attr image ''width'' = Some (Number (Num (img_width img))) \<and>
            get_attr image ''height'' = Some (Number (Num (img_height img))) \<and>
            get_attr image ''href'' = Some (Str base64) \<and>
            children frame =
              children (fst (renderImages cfg env remotes svg0 position0)) @
              (if remote_title remote \<noteq> []
               then [appendChild (create ''g'') (remoteTitle (remote_title remote) (x, titleRow))] else []) @
              [image] \<and>
            children (appendChild (create ''g'') (remoteTitle (remote_title remote) (x, titleRow))) =
              [remoteTitle (remote_title remote) (x, titleRow)] \<and>
            textContent (remoteTitle (remote_title remote) (x, titleRow)) = remote_title remote \<and>
            get_attr (remoteTitle (remote_title remote) (x, titleRow)) ''dx'' = Some (Number x) \<and>
            get_attr (remoteTitle (remote_title remote) (x, titleRow)) ''dy'' = Some (Number titleRow)"
proof -
  obtain svg p where f: "foldl (renderImage cfg env) (svg0, position0) remotes = (svg, p)"
    by (cases "foldl (renderImage cfg env) (svg0, position0) remotes") auto
  with assms(5) have p: "p = position" by (simp add: renderImages_def)
  obtain svg' p' where r: "renderImage cfg env (svg, position) remote = (svg', p')"
    by (cases "renderImage cfg env (svg, position) remote") auto
  have "renderImages cfg env (remotes @ [remote]) svg0 position0 =
          (attr ''xmlns'' (Str ''http://www.w3.org/2000/svg'') svg', p')"
    using f p r by (simp add: renderImages_def)
  then have "snd (renderImages cfg env (remotes @ [remote]) svg0 position0) =
               snd (renderImage cfg env (svg, position) remote)"
    and "children (fst (renderImages cfg env (remotes @ [remote]) svg0 position0)) =
               children (fst (renderImage cfg env (svg, position) remote))"
    using r by (simp_all add: children_attr)
  moreover have "children (fst (renderImages cfg env remotes svg0 position0)) = children svg"
    using f by (simp add: renderImages_def children_attr)
  ultimately show ?thesis
    using renderImage_loaded [OF assms(1-4), of cfg position svg]
    by (simp add: Let_def get_attr_remoteImage get_attr_remoteTitle children_appendChild create_def)
qed

theorem renderImages_overflow_witness:
  "snd (renderImages autoConfig sampleEnv ([] @ [sampleRemote]) (newFrame autoConfig) (Num 0, Num 60)) =
     (Num 150, Num 75) \<and>
   last (children (fst (renderImages autoConfig sampleEnv ([] @ [sampleRemote]) (newFrame autoConfig)
       (Num 0, Num 60)))) =
     remoteImage ''https://example.org/legend.png'' \<lparr>img_width = 100, img_height = 50\<rparr> (Num 150, Num 25) \<and>
   get_attr (last (children (fst (renderImages autoConfig sampleEnv ([] @ [sampleRemote]) (newFrame autoConfig)
       (Num 0, Num 60))))) ''x'' = Some (Number (Num 150)) \<and>
   get_attr (last (children (fst (renderImages autoConfig sampleEnv ([] @ [sampleRemote]) (newFrame autoConfig)
       (Num 0, Num 60))))) ''y'' = Some (Number (Num 25)) \<and>
   snd (renderImages pagedConfig sampleEnv ([] @ [sampleRemote]) (newFrame pagedConfig) (Num 0, Num 60)) =
     (Num 0, Num 135) \<and>
   last (children (fst (renderImages pagedConfig sampleEnv ([] @ [sampleRemote]) (newFrame pagedConfig)
       (Num 0, Num 60)))) =
     remoteImage ''https://example.org/legend.png'' \<lparr>img_width = 100, img_height = 50\<rparr> (Num 0, Num 85) \<and>
   get_attr (last (children (fst (renderImages pagedConfig sampleEnv ([] @ [sampleRemote]) (newFrame pagedConfig)
       (Num 0, Num 60))))) ''x'' = Some (Number (Num 0)) \<and>
   get_attr (last (children (fst (renderImages pagedConfig sampleEnv ([] @ [sampleRemote]) (newFrame pagedConfig)
       (Num 0, Num 60))))) ''y'' = Some (Number (Num 85))"
  using renderImages_overflow [of sampleEnv sampleRemote "Response ''https://example.org/legend.png''"
          "Blob ''https://example.org/legend.png''" "''https://example.org/legend.png''"
          "\<lparr>img_width = 100, img_height = 50\<rparr>" autoConfig "[]" "newFrame autoConfig" "(Num 0, Num 60)"
          "(Num 0, Num 60)"]
        renderImages_overflow [of sampleEnv sampleRemote "Response ''https://example.org/legend.png''"
          "Blob ''https://example.org/legend.png''" "''https://example.org/legend.png''"
          "\<lparr>img_width = 100, img_height = 50\<rparr>" pagedConfig "[]" "newFrame pagedConfig" "(Num 0, Num 60)"
          "(Num 0, Num 60)"]
  by (simp add: sampleEnv_def sampleRemote_def autoConfig_def pagedConfig_def sampleConfig_def
      renderImages_def Let_def get_attr_remoteImage)

section \<open>Properties of the frame\<close>

lemma attrs_renderLegendItem:
  "attrs (fst (snd (renderLegendItem cfg env container item position))) = attrs container"
  by (simp add: renderLegendItem_def Let_def attrs_appendChild split: option.splits promise.splits)

lemma attrs_renderItemStep:
  "attrs (fst (snd (renderItemStep cfg env (p, svg, position) item))) = attrs svg"
proof (cases p)
  case (Fulfilled u)
  obtain r svg1 position1 where r: "renderLegendItem cfg env svg item position = (r, svg1, position1)"
    by (cases "renderLegendItem cfg env svg item position") auto
  with attrs_renderLegendItem [of cfg env svg item position] have "attrs svg1 = attrs svg" by simp
  with r Fulfilled show ?thesis
    by (cases r) (simp_all add: renderItemStep_def)
qed (simp_all add: renderItemStep_def)

lemma attrs_foldl_renderItemStep:
  "attrs (fst (snd (foldl (renderItemStep cfg env) (p, svg, position) its))) = attrs svg"
proof (induction its arbitrary: p svg position)
  case Nil
  then show ?case by simp
next
  case (Cons item its)
  obtain p1 svg1 position1 where s: "renderItemStep cfg env (p, svg, position) item = (p1, svg1, position1)"
    by (cases "renderItemStep cfg env (p, svg, position) item") auto
  with attrs_renderItemStep [of cfg env p svg position item] have "attrs svg1 = attrs svg" by simp
  with Cons.IH [of p1 svg1 position1] s show ?case by simp
qed

lemma attrs_foldl_renderItemStep_result:
  "foldl (renderItemStep cfg env) (p, svg, position) its = (p', svg', position') \<Longrightarrow>
     attrs svg' = attrs svg"
  using attrs_foldl_renderItemStep [of cfg env p svg position its] by simp

lemma attrs_renderLegend:
  "attrs (fst (snd (renderLegend cfg env legend svg position))) = attrs svg"
proof (cases "columnBreakBefore cfg legend position")
  case (Inl e)
  then show ?thesis by (simp add: renderLegend_def attrs_appendChild)
next
  case (Inr position1)
  show ?thesis
  proof (cases "object_items legend")
    case None
    with Inr show ?thesis
      by (simp add: renderLegend_def Let_def attrs_appendChild split: prod.splits)
  next
    case (Some its)
    show ?thesis
    proof (cases "object_title legend = []")
      case True
      with Inr Some show ?thesis
        by (auto simp add: renderLegend_def Let_def attrs_appendChild split: prod.splits
            dest: attrs_foldl_renderItemStep_result)
    next
      case False
      with Inr Some show ?thesis
        by (auto simp add: renderLegend_def Let_def attrs_appendChild split: prod.splits
            dest: attrs_foldl_renderItemStep_result)
    qed
  qed
qed

lemma attrs_renderLegends:
  "renderLegends cfg env legends svg position = Some (Inr (svg', position')) \<Longrightarrow> attrs svg' = attrs svg"
proof (induction legends arbitrary: svg position)
  case Nil
  then show ?case by simp
next
  case (Cons legend legends)
  obtain r svg1 position1 where r: "renderLegend cfg env legend svg position = (r, svg1, position1)"
    by (cases "renderLegend cfg env legend svg position") auto
  with attrs_renderLegend [of cfg env legend svg position] have a: "attrs svg1 = attrs svg" by simp
  from Cons.prems r have "renderLegends cfg env legends svg1 position1 = Some (Inr (svg', position'))"
    by (simp split: sum.splits promise.splits)
  with Cons.IH a show ?case by simp
qed

lemma attrs_renderImage:
  "attrs (fst (renderImage cfg env (svg, position) remote)) = attrs svg"
  by (simp add: renderImage_def Let_def attrs_appendChild split: sum.splits prod.splits)

lemma attrs_foldl_renderImage:
  "attrs (fst (foldl (renderImage cfg env) (svg, position) remotes)) = attrs svg"
proof (induction remotes arbitrary: svg position)
  case Nil
  then show ?case by simp
next
  case (Cons remote remotes)
  obtain svg1 position1 where s: "renderImage cfg env (svg, position) remote = (svg1, position1)"
    by (cases "renderImage cfg env (svg, position) remote") auto
  with attrs_renderImage [of cfg env svg position remote] have "attrs svg1 = attrs svg" by simp
  with Cons.IH [of svg1 position1] s show ?case by simp
qed

lemma get_attr_attr: "get_attr (attr n v e) m = (if m = n then Some v else get_attr e m)"
  by (simp add: get_attr_def attr_def update_conv')

lemma get_attr_cong: "attrs e = attrs e' \<Longrightarrow> get_attr e m = get_attr e' m"
  by (simp add: get_attr_def)

lemma get_attr_renderImages:
  assumes "m \<noteq> ''xmlns''"
  shows "get_attr (fst (renderImages cfg env remotes svg position)) m = get_attr svg m"
proof -
  obtain svg1 position1 where f: "foldl (renderImage cfg env) (svg, position) remotes = (svg1, position1)"
    by (cases "foldl (renderImage cfg env) (svg, position) remotes") auto
  with attrs_foldl_renderImage [of cfg env svg position remotes] have "attrs svg1 = attrs svg" by simp
  then have "get_attr svg1 m = get_attr svg m" by (rule get_attr_cong)
  with f assms show ?thesis by (simp add: renderImages_def get_attr_attr)
qed

lemma get_attr_placeAll:
  assumes "placeAll cfg env = Some (Inr (svg, position))" and "m \<noteq> ''xmlns''"
  shows "get_attr svg m = get_attr (newFrame cfg) m"
proof -
  from assms(1) obtain svg1 position1 where
    l: "renderLegends cfg env (buildLegends cfg) (newFrame cfg) (Num 0, Num 0) = Some (Inr (svg1, position1))"
    by (auto simp add: placeAll_def split: option.splits sum.splits)
  then have a: "get_attr svg1 m = get_attr (newFrame cfg) m"
    using attrs_renderLegends get_attr_cong by blast
  show ?thesis
  proof (cases "remoteLegends cfg")
    case None
    with assms(1) l a show ?thesis by (simp add: placeAll_def)
  next
    case (Some remotes)
    with assms(1) l have "svg = fst (renderImages cfg env remotes svg1 position1)"
      by (simp add: placeAll_def)
    with a assms(2) show ?thesis by (simp add: get_attr_renderImages)
  qed
qed

lemma get_attr_newFrame:
  "get_attr (newFrame cfg) ''width'' = Some (Number (fst (frame_size cfg)))"
  "get_attr (newFrame cfg) ''height'' = Some (Number (snd (frame_size cfg)))"
  "get_attr (newFrame cfg) ''viewBox'' = Some (ViewBox (fst (frame_size cfg)) (snd (frame_size cfg)))"
  by (simp_all add: newFrame_def get_attr_attr split: prod.splits)

text \<open>
  Claim C6, as the code has it. When \<^verbatim>\<open>render\<close> returns the frame, the legends and the
  remote legends were placed and left the cursor at some final position. If
  \<^verbatim>\<open>maxColumnHeight\<close> is falsy (unset, 0 or NaN), the height of the frame and the height
  in its view box are the final row of the cursor, the width staying as configured. If
  \<^verbatim>\<open>maxColumnHeight\<close> is a number other than 0, the frame keeps the configured width,
  height and view box.
\<close>

theorem render_frame_size:
  assumes "render cfg env = Some (Inr svg)"
  shows "\<exists>frame position. placeAll cfg env = Some (Inr (frame, position)) \<and>
           get_attr svg ''width'' = Some (Number (fst (frame_size cfg))) \<and>
           (if truthy (maxColumnHeight cfg)
            then get_attr svg ''height'' = Some (Number (snd (frame_size cfg))) \<and>
                 get_attr svg ''viewBox'' = Some (ViewBox (fst (frame_size cfg)) (snd (frame_size cfg)))
            else get_attr svg ''height'' = Some (Number (snd position)) \<and>
                 get_attr svg ''viewBox'' = Some (ViewBox (fst (frame_size cfg)) (snd position)))"
proof -
  from assms obtain frame position nodes where
    p: "placeAll cfg env = Some (Inr (frame, position))" and
    n: "shortenLabels env (children frame) (maxColumnWidth cfg) = Some (Inr nodes)"
    by (auto simp add: render_def split: option.splits sum.splits)
  let ?svg1 = "Element (tag frame) (attrs frame) (css frame) (textContent frame) nodes"
  have g: "get_attr ?svg1 m = get_attr (newFrame cfg) m" if "m \<noteq> ''xmlns''" for m
    using get_attr_placeAll [OF p that] by (simp add: get_attr_def)
  have s: "svg = (if \<not> truthy (maxColumnHeight cfg)
                  then attr ''height'' (Number (snd position))
                         (attr ''viewBox'' (ViewBox (fst (frame_size cfg)) (snd position)) ?svg1)
                  else ?svg1)"
    using assms p n by (simp add: render_def Let_def split: prod.splits if_splits)
  show ?thesis
    using p s g [of "''width''"] g [of "''height''"] g [of "''viewBox''"]
    by (simp add: get_attr_attr get_attr_newFrame)
qed

lemma placeAll_sampleConfig:
  "map_option (map_sum id snd) (placeAll sampleConfig sampleEnv) = Some (Inr (Num 0, Num 55))"
  by (simp add: placeAll_def buildLegends_def sampleConfig_def extractConfigFromStyle_def Let_def
      renderLegend_def columnBreakBefore_def renderItemStep_def renderLegendItem_def
      getRuleIcon_sampleEnv iconSize_def)

lemma placeAll_pagedConfig:
  "map_option (map_sum id snd) (placeAll pagedConfig sampleEnv) = Some (Inr (Num 0, Num 55))"
  by (simp add: placeAll_def buildLegends_def pagedConfig_def sampleConfig_def extractConfigFromStyle_def
      Let_def renderLegend_def columnBreakBefore_def renderItemStep_def renderLegendItem_def
      getRuleIcon_sampleEnv iconSize_def)

lemma placeAll_zeroHeightConfig:
  "map_option (map_sum id snd) (placeAll zeroHeightConfig sampleEnv) = Some (Inr (Num 0, Num 55))"
  by (simp add: placeAll_def buildLegends_def zeroHeightConfig_def sampleConfig_def extractConfigFromStyle_def
      Let_def renderLegend_def columnBreakBefore_def renderItemStep_def renderLegendItem_def
      getRuleIcon_sampleEnv iconSize_def)

text \<open>When nothing is wider than the column, or no column width is set, no label is
  touched and the loop returns at once.\<close>

lemma shortenLoop_fits:
  "\<not> js_gt (Num (getBoundingClientRectWidth env elem)) maxWidth \<Longrightarrow>
     shortenLoop env maxWidth elem adapted = Some (Inr (elem, adapted))"
  by (subst shortenLoop.simps) simp

lemma shortenLabel_fits:
  "\<not> js_gt (Num (getBoundingClientRectWidth env node)) (toNumber maxWidth) \<Longrightarrow>
     shortenLabel env maxWidth node = Some (Inr node)"
  by (simp add: shortenLabel_def shortenLoop_fits)

lemma shortenLabels_fit:
  "(\<And>node. node \<in> set nodes \<Longrightarrow>
       \<not> js_gt (Num (getBoundingClientRectWidth env node)) (toNumber maxWidth)) \<Longrightarrow>
     shortenLabels env nodes maxWidth = Some (Inr nodes)"
  by (induction nodes) (simp_all add: shortenLabel_fits)

lemma render_returns:
  assumes "placeAll cfg env = Some (Inr (frame, position))"
    and "\<And>node. node \<in> set (children frame) \<Longrightarrow>
       \<not> js_gt (Num (getBoundingClientRectWidth env node)) (toNumber (maxColumnWidth cfg))"
  shows "\<exists>svg. render cfg env = Some (Inr svg)"
  using assms(1) shortenLabels_fit [of "children frame" env "maxColumnWidth cfg"] assms(2)
  by (simp add: render_def Let_def split: prod.splits)
lemma placeAll_frame:
  "map_option (map_sum id snd) (placeAll cfg env) = Some (Inr position) \<Longrightarrow>
     \<exists>frame. placeAll cfg env = Some (Inr (frame, position))"
  by (cases "placeAll cfg env") (auto simp add: map_sum_def split: sum.splits)

lemma sampleEnv_instanceof: "instanceofSVGElement sampleEnv e"
  by (simp add: sampleEnv_def)

lemma sampleEnv_width:
  "getBoundingClientRectWidth sampleEnv e =
     (case first_text (children e) of
        None \<Rightarrow> 0
      | Some t \<Rightarrow> 51 + 10 * of_nat (length (textContent t)))"
  by (simp add: sampleEnv_def)

lemma sampleRule_name: "rule_name sampleRule = ''area''"
  by (simp add: sampleRule_def)

lemma render_sampleConfig: "\<exists>svg. render sampleConfig sampleEnv = Some (Inr svg)"
proof -
  obtain frame where "placeAll sampleConfig sampleEnv = Some (Inr (frame, (Num 0, Num 55)))"
    using placeAll_frame [OF placeAll_sampleConfig] by blast
  then show ?thesis
    by (rule render_returns) (simp add: sampleConfig_def)
qed

lemma render_zeroHeightConfig: "\<exists>svg. render zeroHeightConfig sampleEnv = Some (Inr svg)"
proof -
  obtain frame where "placeAll zeroHeightConfig sampleEnv = Some (Inr (frame, (Num 0, Num 55)))"
    using placeAll_frame [OF placeAll_zeroHeightConfig] by blast
  then show ?thesis
    by (rule render_returns) (simp add: zeroHeightConfig_def sampleConfig_def)
qed

lemma render_pagedConfig: "\<exists>svg. render pagedConfig sampleEnv = Some (Inr svg)"
  by (simp add: render_def placeAll_def buildLegends_def pagedConfig_def sampleConfig_def
      extractConfigFromStyle_def Let_def renderLegend_def columnBreakBefore_def renderItemStep_def
      renderLegendItem_def getRuleIcon_sampleEnv iconSize_def newFrame_def appendChild_def attr_def
      create_def set_style_def set_text_def legendTitleText_def is_legend_item_def get_attr_def
      shortenLabel_def shortenLoop_fits sampleEnv_instanceof sampleEnv_width sampleRule_name)

theorem render_frame_size_witness:
  "(case render sampleConfig sampleEnv of
      Some (Inr svg) \<Rightarrow>
        get_attr svg ''width'' = Some (Number (Num 200)) \<and>
        get_attr svg ''height'' = Some (Number (Num 55)) \<and>
        get_attr svg ''viewBox'' = Some (ViewBox (Num 200) (Num 55))
    | _ \<Rightarrow> False) \<and>
   (case render pagedConfig sampleEnv of
      Some (Inr svg) \<Rightarrow>
        get_attr svg ''width'' = Some (Number (Num 200)) \<and>
        get_attr svg ''height'' = Some (Number (Num 100)) \<and>
        get_attr svg ''viewBox'' = Some (ViewBox (Num 200) (Num 100))
    | _ \<Rightarrow> False)"
proof -
  obtain svg where r: "render sampleConfig sampleEnv = Some (Inr svg)"
    using render_sampleConfig by blast
  obtain svg' where r': "render pagedConfig sampleEnv = Some (Inr svg')"
    using render_pagedConfig by blast
  from render_frame_size [OF r] placeAll_sampleConfig
  have "get_attr svg ''width'' = Some (Number (Num 200)) \<and>
        get_attr svg ''height'' = Some (Number (Num 55)) \<and>
        get_attr svg ''viewBox'' = Some (ViewBox (Num 200) (Num 55))"
    by (auto simp add: sampleConfig_def)
  moreover from render_frame_size [OF r']
  have "get_attr svg' ''width'' = Some (Number (Num 200)) \<and>
        get_attr svg' ''height'' = Some (Number (Num 100)) \<and>
        get_attr svg' ''viewBox'' = Some (ViewBox (Num 200) (Num 100))"
    by (auto simp add: pagedConfig_def sampleConfig_def)
  ultimately show ?thesis using r r' by simp
qed

text \<open>The claim as stated fails for a configured column height of 0: the frame was
  configured 200 by 100, one titled legend with one item leaves the cursor at row 55, and
  the frame is resized to height 55.\<close>

theorem render_frame_size_counterexample:
  "maxColumnHeight zeroHeightConfig = Some (Num 0) \<and>
   frame_size zeroHeightConfig = (Num 200, Num 100) \<and>
   (case render zeroHeightConfig sampleEnv of
      Some (Inr svg) \<Rightarrow>
        get_attr svg ''height'' = Some (Number (Num 55)) \<and>
        get_attr svg ''viewBox'' = Some (ViewBox (Num 200) (Num 55)) \<and>
        get_attr svg ''height'' \<noteq> Some (Number (snd (frame_size zeroHeightConfig)))
    | _ \<Rightarrow> False)"
  by (simp add: render_def placeAll_def buildLegends_def zeroHeightConfig_def sampleConfig_def
      extractConfigFromStyle_def Let_def renderLegend_def columnBreakBefore_def renderItemStep_def
      renderLegendItem_def getRuleIcon_sampleEnv iconSize_def newFrame_def appendChild_def attr_def
      create_def set_style_def set_text_def legendTitleText_def is_legend_item_def get_attr_def
      shortenLabel_def shortenLoop_fits sampleEnv_instanceof sampleEnv_width sampleRule_name)

section \<open>Properties of the label shortening\<close>

lemma substring_prefix: "substring s 0 (int (length s) - int m) = take (length s - m) s"
  by (simp add: substring_def Let_def nat_diff_distrib' min_def max_def)

lemma take_substring:
  "n \<le> length s \<Longrightarrow> substring (take n s) 0 (int (length (take n s)) - int m) = take (n - m) s"
proof -
  assume "n \<le> length s"
  then have "take (length (take n s) - m) (take n s) = take (n - m) s"
    by (simp add: min_absorb1)
  then show ?thesis by (simp only: substring_prefix)
qed

lemma tag_set_text: "tag (set_text x c) = tag c"
  by (simp add: set_text_def)

lemma textContent_set_text: "textContent (set_text x c) = x"
  by (simp add: set_text_def)

lemma set_text_set_text: "set_text y (set_text x c) = set_text y c"
  by (simp add: set_text_def)

lemma set_text_same: "set_text (textContent c) c = c"
  by (cases c) (simp add: set_text_def)

lemma first_text_set_first_text:
  "first_text cs = Some t \<Longrightarrow> first_text (set_first_text x cs) = Some (set_text x t)"
  by (induction cs) (auto simp add: tag_set_text)

lemma set_first_text_twice: "set_first_text y (set_first_text x cs) = set_first_text y cs"
  by (induction cs) (auto simp add: tag_set_text set_text_set_text)

lemma set_first_text_same: "first_text cs = Some t \<Longrightarrow> set_first_text (textContent t) cs = cs"
  by (induction cs) (auto simp add: set_text_same)

lemma children_set_label: "children (set_label x node) = set_first_text x (children node)"
  by (simp add: set_label_def)

lemma set_label_twice: "set_label y (set_label x node) = set_label y node"
  by (simp add: set_label_def set_first_text_twice)

lemma set_label_same: "first_text (children node) = Some t \<Longrightarrow> set_label (textContent t) node = node"
  by (cases node) (simp add: set_label_def set_first_text_same)

text \<open>The loop, started on the label with \<open>i\<close> characters removed, removes one character
  at a time as long as the group is too wide, and stops at the first label that fits.\<close>

lemma shortenLoop_run:
  assumes t: "first_text (children node) = Some t"
    and wide: "\<And>j. i \<le> j \<Longrightarrow> j < k \<Longrightarrow>
            js_gt (Num (getBoundingClientRectWidth env
              (set_label (take (length (textContent t) - j) (textContent t)) node))) maxWidth"
    and fits: "\<not> js_gt (Num (getBoundingClientRectWidth env
              (set_label (take (length (textContent t) - k) (textContent t)) node))) maxWidth"
    and le: "i \<le> k"
  shows "shortenLoop env maxWidth (set_label (take (length (textContent t) - i) (textContent t)) node) adapted =
           Some (Inr (set_label (take (length (textContent t) - k) (textContent t)) node, adapted \<or> i < k))"
  using wide le
proof (induction "k - i" arbitrary: i adapted)
  case 0
  then have "i = k" by simp
  with fits show ?case
    by (subst shortenLoop.simps) simp
next
  case (Suc d)
  let ?s = "textContent t"
  let ?cur = "take (length ?s - i) ?s"
  from Suc.hyps(2) Suc.prems(2) have lt: "i < k" by simp
  have w: "js_gt (Num (getBoundingClientRectWidth env (set_label ?cur node))) maxWidth"
    using Suc.prems(1) [of i] lt by simp
  have ft: "first_text (children (set_label ?cur node)) = Some (set_text ?cur t)"
    using t by (simp add: children_set_label first_text_set_first_text)
  have len: "length ?cur = length ?s - i" by simp
  have sub: "substring ?cur 0 (int (length ?cur) - 1) = take (length ?s - Suc i) ?s"
    using take_substring [of "length ?s - i" ?s 1] by simp
  have step: "shortenLoop env maxWidth (set_label ?cur node) adapted =
              shortenLoop env maxWidth (set_label (take (length ?s - Suc i) ?s) node) True"
    by (subst shortenLoop.simps) (simp only: w ft if_True option.case textContent_set_text sub set_label_twice)
  have "shortenLoop env maxWidth (set_label (take (length ?s - Suc i) ?s) node) True =
          Some (Inr (set_label (take (length ?s - k) ?s) node, True \<or> Suc i < k))"
  proof (rule Suc.hyps(1))
    show "d = k - Suc i" using Suc.hyps(2) by simp
    show "js_gt (Num (getBoundingClientRectWidth env (set_label (take (length ?s - j) ?s) node))) maxWidth"
      if "Suc i \<le> j" "j < k" for j
      using Suc.prems(1) [of j] that by simp
    show "Suc i \<le> k" using lt by simp
  qed
  with step lt show ?case by simp
qed

lemma shortenLabel_run:
  assumes svg: "instanceofSVGElement env node"
    and t: "first_text (children node) = Some t"
    and wide: "\<And>j. j < k \<Longrightarrow>
            js_gt (Num (getBoundingClientRectWidth env
              (set_label (take (length (textContent t) - j) (textContent t)) node))) (toNumber maxWidth)"
    and fits: "\<not> js_gt (Num (getBoundingClientRectWidth env
              (set_label (take (length (textContent t) - k) (textContent t)) node))) (toNumber maxWidth)"
  shows "shortenLabel env maxWidth node =
           Some (Inr (if 0 < k
                      then set_label (take (length (textContent t) - k - 3) (textContent t) @ ''...'') node
                      else node))"
proof -
  let ?s = "textContent t"
  let ?cut = "take (length ?s - k) ?s"
  have n: "set_label (take (length ?s - 0) ?s) node = node"
    using t by (simp add: set_label_same)
  have loop: "shortenLoop env (toNumber maxWidth) node False = Some (Inr (set_label ?cut node, 0 < k))"
    using shortenLoop_run [OF t _ fits, of 0 "False"] wide n by simp
  have ft: "first_text (children (set_label ?cut node)) = Some (set_text ?cut t)"
    using t by (simp add: children_set_label first_text_set_first_text)
  have sub: "substring ?cut 0 (int (length ?cut) - 3) = take (length ?s - k - 3) ?s"
    using take_substring [of "length ?s - k" ?s 3] by simp
  show ?thesis
    unfolding shortenLabel_def
    by (simp only: svg loop ft sub textContent_set_text set_label_twice
          not_True_eq_False if_False option.case sum.case prod.case)
       (use t in \<open>simp add: set_label_same\<close>)
qed

text \<open>
  Claim C9, as the code has it. Take a placed item group whose label has \<open>n\<close> characters
  and which is too wide with 0, 1, ..., \<open>k - 1\<close> trailing characters removed and fits with
  \<open>k\<close> removed, \<open>k\<close> at least 1. Then \<^verbatim>\<open>shortenLabels\<close> returns for that group, and the
  final label is the first \<open>n - k - 3\<close> characters of the original (none when fewer than
  3 are left after the loop) followed by three dots: its length is
  \<open>max (n - k - 3) 0 + 3\<close> and it ends with the three dots. A group that is not too wide
  at the start, or that is no SVG element, is returned unchanged.
\<close>

theorem shortenLabel_truncated:
  "(instanceofSVGElement env node \<and>
    first_text (children node) = Some t \<and>
    0 < k \<and>
    (\<forall>j<k. js_gt (Num (getBoundingClientRectWidth env
              (set_label (take (length (textContent t) - j) (textContent t)) node))) (toNumber maxWidth)) \<and>
    \<not> js_gt (Num (getBoundingClientRectWidth env
              (set_label (take (length (textContent t) - k) (textContent t)) node))) (toNumber maxWidth) \<longrightarrow>
      shortenLabel env maxWidth node =
        Some (Inr (set_label (take (length (textContent t) - k - 3) (textContent t) @ ''...'') node)) \<and>
      int (length (take (length (textContent t) - k - 3) (textContent t) @ ''...'')) =
        max (int (length (textContent t)) - int k - 3) 0 + 3 \<and>
      drop (length (take (length (textContent t) - k - 3) (textContent t) @ ''...'') - 3)
        (take (length (textContent t) - k - 3) (textContent t) @ ''...'') = ''...'') \<and>
   (\<forall>node'. \<not> instanceofSVGElement env node' \<or>
            \<not> js_gt (Num (getBoundingClientRectWidth env node')) (toNumber maxWidth) \<longrightarrow>
      shortenLabel env maxWidth node' = Some (Inr node'))"
proof -
  have "shortenLabel env maxWidth node =
           Some (Inr (set_label (take (length (textContent t) - k - 3) (textContent t) @ ''...'') node))"
    if "instanceofSVGElement env node" "first_text (children node) = Some t" "0 < k"
      "\<forall>j<k. js_gt (Num (getBoundingClientRectWidth env
              (set_label (take (length (textContent t) - j) (textContent t)) node))) (toNumber maxWidth)"
      "\<not> js_gt (Num (getBoundingClientRectWidth env
              (set_label (take (length (textContent t) - k) (textContent t)) node))) (toNumber maxWidth)"
    using shortenLabel_run [OF that(1,2) _ that(5)] that(3,4) by simp
  moreover have "int (length (take (length (textContent t) - k - 3) (textContent t) @ ''...'')) =
           max (int (length (textContent t)) - int k - 3) 0 + 3"
  proof -
    have "length (take (length (textContent t) - k - 3) (textContent t)) = length (textContent t) - k - 3"
      by simp
    moreover have "int (length (textContent t) - k - 3) = max (int (length (textContent t)) - int k - 3) 0"
      by arith
    ultimately show ?thesis by simp
  qed
  moreover have "drop (length (take (length (textContent t) - k - 3) (textContent t) @ ''...'') - 3)
           (take (length (textContent t) - k - 3) (textContent t) @ ''...'') = ''...''"
    by simp
  moreover have "shortenLabel env maxWidth node' = Some (Inr node')"
    if "\<not> instanceofSVGElement env node' \<or>
        \<not> js_gt (Num (getBoundingClientRectWidth env node')) (toNumber maxWidth)" for node'
    using that shortenLabel_fits [of env node' maxWidth] by (auto simp add: shortenLabel_def)
  ultimately show ?thesis
    by blast
qed

lemma sampleGroup_first_text: "first_text (children (sampleGroup l)) = Some (set_text l (create ''text''))"
  by (simp add: sampleGroup_def appendChild_def attr_def create_def set_text_def)

lemma sampleGroup_set_label: "set_label x (sampleGroup l) = sampleGroup x"
  by (simp add: sampleGroup_def set_label_def appendChild_def attr_def create_def set_text_def)

lemma sampleGroup_width:
  "getBoundingClientRectWidth sampleEnv (sampleGroup l) = 51 + 10 * of_nat (length l)"
  by (simp add: sampleEnv_width sampleGroup_first_text textContent_set_text)

theorem shortenLabel_truncated_witness:
  "shortenLabel sampleEnv (Some (Num 105)) (sampleGroup ''motorway'') = Some (Inr (sampleGroup ''mo...'')) \<and>
   int (length ''mo...'') = max (int (length ''motorway'') - int 3 - 3) 0 + 3 \<and>
   shortenLabel sampleEnv (Some (Num 105)) (sampleGroup ''road'') = Some (Inr (sampleGroup ''road''))"
proof -
  have w: "\<forall>j<3. js_gt (Num (getBoundingClientRectWidth sampleEnv
              (set_label (take (length (textContent (set_text ''motorway'' (create ''text''))) - j)
                 (textContent (set_text ''motorway'' (create ''text'')))) (sampleGroup ''motorway''))))
             (toNumber (Some (Num 105)))"
  proof (intro allI impI)
    fix j :: nat
    assume "j < 3"
    then have "j = 0 \<or> j = 1 \<or> j = 2" by arith
    then show "js_gt (Num (getBoundingClientRectWidth sampleEnv
              (set_label (take (length (textContent (set_text ''motorway'' (create ''text''))) - j)
                 (textContent (set_text ''motorway'' (create ''text'')))) (sampleGroup ''motorway''))))
             (toNumber (Some (Num 105)))"
      by (auto simp add: sampleGroup_set_label sampleGroup_width textContent_set_text)
  qed
  have f: "\<not> js_gt (Num (getBoundingClientRectWidth sampleEnv
              (set_label (take (length (textContent (set_text ''motorway'' (create ''text''))) - 3)
                 (textContent (set_text ''motorway'' (create ''text'')))) (sampleGroup ''motorway''))))
             (toNumber (Some (Num 105)))"
    by (simp add: sampleGroup_set_label sampleGroup_width textContent_set_text)
  have g: "\<not> js_gt (Num (getBoundingClientRectWidth sampleEnv (sampleGroup ''road''))) (toNumber (Some (Num 105)))"
    by (simp add: sampleGroup_width)
  have i: "instanceofSVGElement sampleEnv (sampleGroup ''motorway'')"
    by (rule sampleEnv_instanceof)
  have t: "first_text (children (sampleGroup ''motorway'')) = Some (set_text ''motorway'' (create ''text''))"
    by (rule sampleGroup_first_text)
  have k: "0 < (3::nat)" by simp
  note inst = shortenLabel_truncated [of sampleEnv "sampleGroup ''motorway''"
      "set_text ''motorway'' (create ''text'')" 3 "Some (Num 105)"]
  from inst i t k w f
  have "shortenLabel sampleEnv (Some (Num 105)) (sampleGroup ''motorway'') =
          Some (Inr (set_label (take (length (textContent (set_text ''motorway'' (create ''text''))) - 3 - 3)
            (textContent (set_text ''motorway'' (create ''text''))) @ ''...'') (sampleGroup ''motorway'')))"
    by blast
  moreover from inst g
  have "shortenLabel sampleEnv (Some (Num 105)) (sampleGroup ''road'') = Some (Inr (sampleGroup ''road''))"
    by blast
  ultimately show ?thesis
    by (simp add: sampleGroup_set_label textContent_set_text)
qed

text \<open>The claim as stated fails when fewer than 3 characters are left after the loop.
  The label "abcd" is too wide for a column of 75 as it is (91) and with one character
  removed (81), and fits with two removed (71), so \<open>k = 2\<close>. The final label is "..." of
  3 characters, and (4 - 2 - 3) + 3 is 2.\<close>

theorem shortenLabel_truncated_counterexample:
  "js_gt (Num (getBoundingClientRectWidth sampleEnv (sampleGroup ''abcd''))) (Num 75) \<and>
   js_gt (Num (getBoundingClientRectWidth sampleEnv (sampleGroup ''abc''))) (Num 75) \<and>
   \<not> js_gt (Num (getBoundingClientRectWidth sampleEnv (sampleGroup ''ab''))) (Num 75) \<and>
   shortenLabel sampleEnv (Some (Num 75)) (sampleGroup ''abcd'') = Some (Inr (sampleGroup ''...'')) \<and>
   int (length ''...'') \<noteq> (int (length ''abcd'') - 2 - 3) + 3"
proof -
  have w: "js_gt (Num (getBoundingClientRectWidth sampleEnv
              (set_label (take (length (textContent (set_text ''abcd'' (create ''text''))) - j)
                 (textContent (set_text ''abcd'' (create ''text'')))) (sampleGroup ''abcd''))))
             (toNumber (Some (Num 75)))" if "j < 2" for j
  proof -
    from that have "j = 0 \<or> j = 1" by arith
    then show ?thesis
      by (auto simp add: sampleGroup_set_label sampleGroup_width textContent_set_text)
  qed
  have f: "\<not> js_gt (Num (getBoundingClientRectWidth sampleEnv
              (set_label (take (length (textContent (set_text ''abcd'' (create ''text''))) - 2)
                 (textContent (set_text ''abcd'' (create ''text'')))) (sampleGroup ''abcd''))))
             (toNumber (Some (Num 75)))"
    by (simp add: sampleGroup_set_label sampleGroup_width textContent_set_text)
  have "shortenLabel sampleEnv (Some (Num 75)) (sampleGroup ''abcd'') = Some (Inr (sampleGroup ''...''))"
    using shortenLabel_run [OF sampleEnv_instanceof sampleGroup_first_text w f]
    by (simp add: sampleGroup_set_label textContent_set_text)
  then show ?thesis
    by (simp add: sampleGroup_width)
qed

end
